theory Spec2Isabelle
  imports Main "HOL-Library.Word"
begin

unbundle bit_operations_syntax

section \<open>The OpenElectrons SmartUPS driver (drivers/oe\_smartups.c)\<close>

text \<open>
  The driver talks to the device through \<^verbatim>\<open>ioctl\<close>, \<^verbatim>\<open>write\<close> and \<^verbatim>\<open>read\<close> on one file
  descriptor and keeps two process-wide variables, \<^verbatim>\<open>device_initialized\<close> and
  \<^verbatim>\<open>fsd_latch\<close>.  The embedding threads two things through every function: the
  environment (the answers the kernel will give to the coming system calls) and the
  driver's state (the two statics, \<^verbatim>\<open>upsfd\<close>, and what has been handed to the
  publication layer).  A call of \<^verbatim>\<open>fatal_with_errno\<close> ends the process and is the
  result \<open>Inl (Fatal msg)\<close>; an integer division by zero, which C leaves undefined, is
  the result \<open>Inl DivisionByZero\<close>.  Debug traces (\<^verbatim>\<open>upsdebugx\<close>, \<^verbatim>\<open>upsdebug_hex\<close>) change
  nothing that is modelled and are left out.
\<close>

subsection \<open>Data\<close>

type_synonym byte = "8 word"

datatype error = Fatal string | DivisionByZero

datatype freshness = NoData | Stale | DataOk

record driver =
  device_initialized :: int
  fsd_latch :: int
  upsfd :: int
  info :: "string \<rightharpoonup> string"
  status_buf :: string
  data_state :: freshness
  syslog :: "string list"
  console :: "string list"

text \<open>
  One answer of the kernel: the call's return value and, for a \<^verbatim>\<open>read\<close>, the bytes the
  device has ready.  The environment is the list of the answers to come, in call order.
  An exhausted list answers like a bus that went away: every call returns \<open>-1\<close>.
\<close>

datatype sysresp = Resp int "byte list"

type_synonym world = "sysresp list"

fun sys_call :: "world \<Rightarrow> int \<times> byte list \<times> world" where
  "sys_call [] = (- 1, [], [])"
| "sys_call (Resp r bs # w) = (r, bs, w)"

definition sys_ioctl :: "world \<Rightarrow> int \<times> world" where
  "sys_ioctl w = (case sys_call w of (r, bs, w') \<Rightarrow> (r, w'))"

definition sys_open :: "world \<Rightarrow> int \<times> world" where
  "sys_open w = (case sys_call w of (r, bs, w') \<Rightarrow> (r, w'))"

definition sys_close :: "world \<Rightarrow> int \<times> world" where
  "sys_close w = (case sys_call w of (r, bs, w') \<Rightarrow> (r, w'))"

definition sys_write :: "world \<Rightarrow> int \<times> world" where
  "sys_write w = (case sys_call w of (r, bs, w') \<Rightarrow> (r, w'))"

text \<open>
  \<^verbatim>\<open>read(fd, dest, len)\<close>: a negative answer delivers nothing; otherwise at most \<open>len\<close>
  bytes are delivered and the return value is their number.
\<close>

definition sys_read :: "nat \<Rightarrow> world \<Rightarrow> int \<times> byte list \<times> world" where
  "sys_read len w =
     (case sys_call w of (r, bs, w') \<Rightarrow>
        if r < 0 then (r, [], w')
        else (let d = take (min (nat r) len) bs in (int (length d), d, w')))"

subsection \<open>printf conversions\<close>

definition digit :: "nat \<Rightarrow> char" where
  "digit n = ''0123456789abcdef'' ! n"

fun dec :: "nat \<Rightarrow> string" where
  "dec n = (if n < 10 then [digit n] else dec (n div 10) @ [digit (n mod 10)])"

fun hex :: "nat \<Rightarrow> string" where
  "hex n = (if n < 16 then [digit n] else hex (n div 16) @ [digit (n mod 16)])"

declare dec.simps [simp del] hex.simps [simp del]

definition zero_pad :: "nat \<Rightarrow> string \<Rightarrow> string" where
  "zero_pad w s = replicate (w - length s) (CHR ''0'') @ s"

text \<open>\<^verbatim>\<open>(unsigned)tmp\<close> on a 32-bit \<^verbatim>\<open>int\<close>.\<close>

definition to_unsigned :: "int \<Rightarrow> int" where
  "to_unsigned i = i mod 2 ^ 32"

text \<open>\<^verbatim>\<open>%d\<close>, \<^verbatim>\<open>%03d\<close>, \<^verbatim>\<open>%x\<close> and \<^verbatim>\<open>%02x\<close>.\<close>

definition fmt_d :: "int \<Rightarrow> string" where
  "fmt_d i = (if i < 0 then CHR ''-'' # dec (nat (- i)) else dec (nat i))"

definition fmt_03d :: "int \<Rightarrow> string" where
  "fmt_03d i = (if i < 0 then CHR ''-'' # zero_pad 2 (dec (nat (- i))) else zero_pad 3 (dec (nat i)))"

definition fmt_x :: "int \<Rightarrow> string" where
  "fmt_x i = hex (nat (to_unsigned i))"

definition fmt_02x :: "int \<Rightarrow> string" where
  "fmt_02x i = zero_pad 2 (hex (nat (to_unsigned i)))"

subsection \<open>The publication layer\<close>

text \<open>
  Modelled from the spec: \<^verbatim>\<open>dstate_setinfo\<close>, \<^verbatim>\<open>dstate_getinfo\<close>, \<^verbatim>\<open>dstate_datastale\<close>,
  \<^verbatim>\<open>dstate_dataok\<close>, \<^verbatim>\<open>status_init\<close>, \<^verbatim>\<open>status_set\<close>, \<^verbatim>\<open>status_commit\<close>, \<^verbatim>\<open>upslogx\<close> and
  \<^verbatim>\<open>upslog_with_errno\<close> belong to the driver core, which is not part of the source at
  hand.  The spec describes them as a key-value publication of the decoded values, a
  "data stale/unavailable" signal, a composite status string of space-joined tags, and
  logging; that is what these definitions do.  A log line is the formatted message;
  the error text that \<^verbatim>\<open>upslog_with_errno\<close> appends to it is left out.
\<close>

definition dstate_setinfo :: "string \<Rightarrow> string \<Rightarrow> driver \<Rightarrow> driver" where
  "dstate_setinfo var val s = s\<lparr>info := (info s)(var \<mapsto> val)\<rparr>"

definition dstate_getinfo :: "string \<Rightarrow> driver \<Rightarrow> string" where
  "dstate_getinfo var s = (case info s var of None \<Rightarrow> ''(null)'' | Some v \<Rightarrow> v)"

definition dstate_datastale :: "driver \<Rightarrow> driver" where
  "dstate_datastale s = s\<lparr>data_state := Stale\<rparr>"

definition dstate_dataok :: "driver \<Rightarrow> driver" where
  "dstate_dataok s = s\<lparr>data_state := DataOk\<rparr>"

definition status_init :: "driver \<Rightarrow> driver" where
  "status_init s = s\<lparr>status_buf := []\<rparr>"

definition status_set :: "string \<Rightarrow> driver \<Rightarrow> driver" where
  "status_set t s =
     s\<lparr>status_buf := (if status_buf s = [] then t else status_buf s @ '' '' @ t)\<rparr>"

definition status_commit :: "driver \<Rightarrow> driver" where
  "status_commit s = dstate_setinfo ''ups.status'' (status_buf s) s"

definition upslogx :: "string \<Rightarrow> driver \<Rightarrow> driver" where
  "upslogx msg s = s\<lparr>syslog := syslog s @ [msg]\<rparr>"

definition upslog_with_errno :: "string \<Rightarrow> driver \<Rightarrow> driver" where
  "upslog_with_errno msg s = s\<lparr>syslog := syslog s @ [msg]\<rparr>"

definition printf :: "string \<Rightarrow> driver \<Rightarrow> driver" where
  "printf msg s = s\<lparr>console := console s @ [msg]\<rparr>"

subsection \<open>Identity strings\<close>

definition VENDOR_ID_OFFSET :: int where [simp]: "VENDOR_ID_OFFSET = 0x8"
definition DEVICE_ID_OFFSET :: int where [simp]: "DEVICE_ID_OFFSET = 0x10"
definition FIRMWARE_OFFSET :: int where [simp]: "FIRMWARE_OFFSET = 0"

text \<open>
  \<^verbatim>\<open>select_slave\<close>: a rejected address ends the process, whoever the caller is.
\<close>

definition select_slave :: "world \<Rightarrow> error + world" where
  "select_slave w =
     (case sys_ioctl w of (ret, w') \<Rightarrow>
        if ret < 0 then Inl (Fatal ''Could not select slave address 0x12'') else Inr w')"

text \<open>
  \<^verbatim>\<open>i2c_read_cstring(fd, start, len, dest)\<close> gives its return value, \<open>dest\<close> (the \<open>ret\<close>
  bytes read, followed by the terminator written at \<open>dest[ret]\<close>), and the lines it has
  logged, which \<open>logged\<close> adds to the caller's state.  On an error \<open>dest\<close> is not written
  and no caller reads it; it is \<open>[]\<close> here.
\<close>

definition i2c_read_cstring :: "int \<Rightarrow> nat \<Rightarrow> world \<Rightarrow> int \<times> byte list \<times> world \<times> string list" where
  "i2c_read_cstring start len w =
     (case sys_write w of (ret, w1) \<Rightarrow>
        if ret < 0 then
          (ret, [], w1,
           [''i2c_read_cstring: could not write offset 0x'' @ fmt_02x start @ '' for reading''])
        else
          (case sys_read len w1 of (ret, bs, w2) \<Rightarrow>
             if ret < 0 then
               (ret, [], w2, [''i2c_read_cstring: could not read from offset 0x'' @ fmt_02x start])
             else
               (0, bs @ [0], w2,
                if ret \<noteq> int len then
                  [''i2c_read_cstring: requested '' @ fmt_d (int len) @ '' bytes, got '' @ fmt_d ret]
                else [])))"

definition logged :: "string list \<Rightarrow> driver \<Rightarrow> driver" where
  "logged msgs s = s\<lparr>syslog := syslog s @ msgs\<rparr>"

text \<open>The text of a C string: the bytes before the first null.\<close>

definition cstring :: "byte list \<Rightarrow> string" where
  "cstring bs = map (\<lambda>b. char_of (unat b)) (takeWhile (\<lambda>b. b \<noteq> 0) bs)"

definition smartups_read_ID :: "bool \<Rightarrow> world \<Rightarrow> driver \<Rightarrow> error + (world \<times> driver)" where
  "smartups_read_ID error_is_fatal w s =
     (case select_slave w of
        Inl e \<Rightarrow> Inl e
      | Inr w0 \<Rightarrow>
     (case i2c_read_cstring VENDOR_ID_OFFSET 8 w0 of (ret, vendor, w1, l1) \<Rightarrow>
        if ret < 0 then
          (if error_is_fatal then Inl (Fatal ''Could not read Vendor ID string'')
           else Inr (w1, logged l1 s))
        else
     (let s1 = (if cstring vendor = ''Openelec''
                then dstate_setinfo ''ups.mfr'' ''OpenElectrons.com'' (logged l1 s)
                else dstate_setinfo ''ups.mfr'' (cstring vendor) (logged l1 s)) in
     (case i2c_read_cstring DEVICE_ID_OFFSET 8 w1 of (ret, model, w2, l2) \<Rightarrow>
        if ret < 0 then
          (if error_is_fatal then Inl (Fatal ''Could not read Device ID string'')
           else Inr (w2, logged l2 s1))
        else
     (let s2 = dstate_setinfo ''ups.model'' (cstring model) (logged l2 s1) in
     (case i2c_read_cstring FIRMWARE_OFFSET 8 w2 of (ret, firmware, w3, l3) \<Rightarrow>
        if ret < 0 then
          (if error_is_fatal then Inl (Fatal ''Could not read firmware string'')
           else Inr (w3, logged l3 s2))
        else
     (let s3 = dstate_setinfo ''ups.firmware'' (cstring firmware) (logged l3 s2);
          s4 = dstate_setinfo ''output.voltage.nominal'' ''5.0'' s3;
          s5 = dstate_setinfo ''battery.voltage.nominal'' ''4.5'' s4;
          s6 = dstate_setinfo ''battery.type'' ''NiMH'' s5;
          s7 = dstate_setinfo ''ups.delay.shutdown'' ''50'' s6;
          s8 = printf (''Detected: '' @ dstate_getinfo ''ups.mfr'' s7 @ '' '' @ cstring model
                       @ '' ('' @ cstring firmware @ '')'' @ [CHR 0x0A]) s7
      in Inr (w3, s8\<lparr>device_initialized := 1, fsd_latch := 0\<rparr>))))))))"

definition upsdrv_initinfo :: "world \<Rightarrow> driver \<Rightarrow> error + (world \<times> driver)" where
  "upsdrv_initinfo w s = smartups_read_ID True w s"

subsection \<open>The telemetry block\<close>

definition COMMAND_OFFSET :: nat where [simp]: "COMMAND_OFFSET = 0x41"
definition COMMAND_VALUE :: nat where [simp]: "COMMAND_VALUE = 0x53"
definition RESTART_OPTION :: nat where [simp]: "RESTART_OPTION = 0x42"
definition BUTTON_STATE :: nat where [simp]: "BUTTON_STATE = 0x43"
definition RESTART_TIME :: nat where [simp]: "RESTART_TIME = 0x44"
definition BATTERY_STATE :: nat where [simp]: "BATTERY_STATE = 0x46"
definition BATTERY_CURRENT :: nat where [simp]: "BATTERY_CURRENT = 0x48"
definition BATTERY_VOLTAGE :: nat where [simp]: "BATTERY_VOLTAGE = 0x4A"
definition BATTERY_CAPACITY :: nat where [simp]: "BATTERY_CAPACITY = 0x4C"
definition BATTERY_TIME :: nat where [simp]: "BATTERY_TIME = 0x4E"
definition BATTERY_TEMPERATURE :: nat where [simp]: "BATTERY_TEMPERATURE = 0x50"
definition BATTERY_HEALTH :: nat where [simp]: "BATTERY_HEALTH = 0x51"
definition OUTPUT_VOLTAGE :: nat where [simp]: "OUTPUT_VOLTAGE = 0x52"
definition OUTPUT_CURRENT :: nat where [simp]: "OUTPUT_CURRENT = 0x54"
definition BATTERY_MAX_CAPACITY :: nat where [simp]: "BATTERY_MAX_CAPACITY = 0x56"
definition SECONDS :: nat where [simp]: "SECONDS = 0x58"
definition READ_OFFSET :: nat where [simp]: "READ_OFFSET = RESTART_OPTION"
definition READ_LEN :: nat where [simp]: "READ_LEN = SECONDS + 2 - RESTART_OPTION + 1"

text \<open>
  \<^verbatim>\<open>unsigned char buffer[256]\<close> is a local array that is never initialised: its contents
  at entry are whatever the stack holds.  It is a function from index to byte, and the
  contents at entry are an argument of the poll.  \<open>store\<close> is what a \<^verbatim>\<open>read\<close> into
  \<^verbatim>\<open>buffer + off\<close> does with the bytes it delivers.
\<close>

type_synonym buffer = "nat \<Rightarrow> byte"

definition store :: "byte list \<Rightarrow> nat \<Rightarrow> buffer \<Rightarrow> buffer" where
  "store bs off buf = (\<lambda>i. if off \<le> i \<and> i < off + length bs then bs ! (i - off) else buf i)"

text \<open>\<^verbatim>\<open>buffer[X] | (buffer[X+1] << 8)\<close>, on \<^verbatim>\<open>int\<close> after the integer promotions.\<close>

definition rd16 :: "buffer \<Rightarrow> nat \<Rightarrow> int" where
  "rd16 buf off = uint (buf off) OR push_bit 8 (uint (buf (off + 1)))"

text \<open>
  The values the poll takes from the block, each as the source computes it
  (lines 218 to 311): \<open>sign\<close> and \<open>battery_current\<close> are the sign character and \<open>tmp\<close>
  after the correction of lines 221 to 225.
\<close>

record telemetry =
  sign :: char
  battery_current :: int
  battery_voltage :: int
  battery_capacity :: int
  battery_time :: int
  battery_temperature :: int
  battery_health :: int
  battery_max_capacity :: int
  seconds :: int
  button_state :: int
  battery_state :: int

definition decode_telemetry :: "buffer \<Rightarrow> telemetry" where
  "decode_telemetry buf =
     (let tmp = rd16 buf BATTERY_CURRENT;
          neg = (tmp AND push_bit 15 1 \<noteq> 0)
      in \<lparr> sign = (if neg then CHR ''-'' else CHR ''+''),
           battery_current = (if neg then 65536 - tmp else tmp),
           battery_voltage = rd16 buf BATTERY_VOLTAGE,
           battery_capacity = rd16 buf BATTERY_CAPACITY,
           battery_time = rd16 buf BATTERY_TIME,
           battery_temperature = uint (buf BATTERY_TEMPERATURE),
           battery_health = uint (buf BATTERY_HEALTH),
           battery_max_capacity = rd16 buf BATTERY_MAX_CAPACITY,
           seconds = rd16 buf SECONDS,
           button_state = uint (buf BUTTON_STATE),
           battery_state = uint (buf BATTERY_STATE) \<rparr>)"

text \<open>
  C's \<^verbatim>\<open>/\<close> on \<^verbatim>\<open>int\<close>: undefined for a zero divisor, truncating towards zero otherwise.
\<close>

definition c_div :: "int \<Rightarrow> int \<Rightarrow> error + int" where
  "c_div a b = (if b = 0 then Inl DivisionByZero else Inr (sgn a * sgn b * (\<bar>a\<bar> div \<bar>b\<bar>)))"

text \<open>Lines 218 to 252: current, voltage, runtime and temperature.\<close>

definition publish_battery :: "telemetry \<Rightarrow> driver \<Rightarrow> driver" where
  "publish_battery t s =
     (let s1 = dstate_setinfo ''battery.current''
                 (sign t # fmt_d (to_unsigned (battery_current t) div 1000) @ ''.''
                    @ fmt_03d (to_unsigned (battery_current t) mod 1000)) s;
          s2 = dstate_setinfo ''battery.voltage''
                 (fmt_d (to_unsigned (battery_voltage t) div 1000) @ ''.''
                    @ fmt_03d (to_unsigned (battery_voltage t) mod 1000)) s1;
          s3 = dstate_setinfo ''battery.runtime'' (fmt_d (battery_time t)) s2
      in dstate_setinfo ''battery.temperature'' (fmt_d (battery_temperature t)) s3)"

text \<open>Lines 218 to 295: the above, then the charge (line 286) and the seconds counter.\<close>

definition publish_telemetry :: "telemetry \<Rightarrow> driver \<Rightarrow> error + driver" where
  "publish_telemetry t s =
     (case c_div (100 * battery_capacity t) (battery_max_capacity t) of
        Inl e \<Rightarrow> Inl e
      | Inr charge \<Rightarrow>
          Inr (dstate_setinfo ''ups.time'' (fmt_d (seconds t))
                (dstate_setinfo ''battery.charge'' (fmt_d charge) (publish_battery t s))))"

text \<open>Lines 297 to 307: the contacts value and the forced-shutdown latch.\<close>

definition latch_step :: "int \<Rightarrow> driver \<Rightarrow> driver" where
  "latch_step tmp s =
     (let s1 = dstate_setinfo ''ups.contacts'' (fmt_x (tmp AND 3)) s;
          s2 = (if tmp = 9 \<or> tmp = 0xa then s1\<lparr>fsd_latch := 1\<rparr> else s1)
      in if tmp = 1 \<or> tmp = 2 \<or> tmp = 3 then s2\<lparr>fsd_latch := 0\<rparr> else s2)"

text \<open>Lines 311 to 344: the status string.\<close>

definition status_step :: "int \<Rightarrow> driver \<Rightarrow> driver" where
  "status_step tmp s =
     (let s1 = status_init s;
          s2 = (if tmp = 0 then status_set ''OL'' s1
                else if tmp = 1 \<or> tmp = 2 \<or> tmp = 3 then status_set ''OL CHRG'' s1
                else if tmp = 4 then status_set ''OL'' s1
                else if tmp = 5 then status_set ''OB'' s1
                else if tmp = 6 \<or> tmp = 7 then status_set ''OB LB'' s1
                else upslogx (''upsdrv_updateinfo: unknown battery state 0x'' @ fmt_02x tmp) s1);
          s3 = (if fsd_latch s2 \<noteq> 0 then status_set ''FSD'' s2 else s2)
      in status_commit s3)"

text \<open>Lines 218 to 353: everything the poll does once the block is in the buffer.\<close>

definition decode_publish :: "buffer \<Rightarrow> driver \<Rightarrow> error + driver" where
  "decode_publish buf s =
     (let t = decode_telemetry buf in
      case publish_telemetry t s of
        Inl e \<Rightarrow> Inl e
      | Inr s1 \<Rightarrow> Inr (dstate_dataok (status_step (battery_state t) (latch_step (button_state t) s1))))"

text \<open>Lines 191 to 193: the identity probe of a poll that finds the device not initialised.\<close>

definition lazy_probe :: "world \<Rightarrow> driver \<Rightarrow> error + (world \<times> driver)" where
  "lazy_probe w s =
     (if device_initialized s = 0 then smartups_read_ID False w s else Inr (w, s))"

text \<open>
  Lines 195 to 216: the offset-select write and the block read.  The result has the
  buffer when the poll goes on to decode it, and \<open>None\<close> when the poll has returned.
\<close>

definition read_block :: "buffer \<Rightarrow> world \<Rightarrow> driver \<Rightarrow> world \<times> driver \<times> buffer option" where
  "read_block stack w s =
     (let buffer = stack(0 := word_of_nat READ_OFFSET) in
      case sys_write w of (ret, w1) \<Rightarrow>
        if ret < 0 then
          (w1, (dstate_datastale (upslog_with_errno ''Could not set address (no ACK?)'' s))
                 \<lparr>device_initialized := 0\<rparr>, None)
        else
          (case sys_read READ_LEN w1 of (ret, bs, w2) \<Rightarrow>
             if ret < 0 then
               (w2, (dstate_datastale (upslog_with_errno ''Could not read data block.'' s))
                      \<lparr>device_initialized := 0\<rparr>, None)
             else (w2, s, Some (store bs READ_OFFSET buffer))))"

definition upsdrv_updateinfo :: "buffer \<Rightarrow> world \<Rightarrow> driver \<Rightarrow> error + (world \<times> driver)" where
  "upsdrv_updateinfo stack w s =
     (case lazy_probe w s of
        Inl e \<Rightarrow> Inl e
      | Inr (w1, s1) \<Rightarrow>
          (case read_block stack w1 s1 of
             (w2, s2, None) \<Rightarrow> Inr (w2, s2)
           | (w2, s2, Some buf) \<Rightarrow>
               (case decode_publish buf s2 of
                  Inl e \<Rightarrow> Inl e
                | Inr s3 \<Rightarrow> Inr (w2, s3))))"

subsection \<open>The other entry points\<close>

definition upsdrv_shutdown :: "world \<Rightarrow> driver \<Rightarrow> error + (world \<times> driver)" where
  "upsdrv_shutdown w s =
     (case select_slave w of
        Inl e \<Rightarrow> Inl e
      | Inr w0 \<Rightarrow>
          (case sys_write w0 of (ret, w1) \<Rightarrow>
             if ret \<noteq> 2 then
               Inr (w1, upslog_with_errno (''Could not send shutdown command (ret = '' @ fmt_d ret @ '')'') s)
             else Inr (w1, s)))"

definition upsdrv_help :: "driver \<Rightarrow> driver" where
  "upsdrv_help s = s"

definition upsdrv_makevartable :: "driver \<Rightarrow> driver" where
  "upsdrv_makevartable s = s"

text \<open>\<^verbatim>\<open>device_path\<close> is a variable of the driver core; here it is an argument.\<close>

definition upsdrv_initups :: "string \<Rightarrow> world \<Rightarrow> driver \<Rightarrow> error + (world \<times> driver)" where
  "upsdrv_initups device_path w s =
     (case sys_open w of (fd, w1) \<Rightarrow>
        if fd < 0 then
          Inl (Fatal (''Could not open I2C bus '' @ [CHR 0x27] @ device_path @ [CHR 0x27]))
        else Inr (w1, s\<lparr>upsfd := fd\<rparr>))"

definition upsdrv_cleanup :: "world \<Rightarrow> driver \<Rightarrow> world \<times> driver" where
  "upsdrv_cleanup w s =
     (if upsfd s \<ge> 0 then (case sys_close w of (ret, w1) \<Rightarrow> (w1, s\<lparr>upsfd := - 1\<rparr>))
      else (w, s))"

text \<open>The calls the driver core can make into the driver, and what each does.\<close>

datatype event = InitUps string | InitInfo | UpdateInfo buffer | Shutdown | Cleanup | Help | MakeVarTable

fun run :: "event \<Rightarrow> world \<Rightarrow> driver \<Rightarrow> error + (world \<times> driver)" where
  "run (InitUps device_path) w s = upsdrv_initups device_path w s"
| "run InitInfo w s = upsdrv_initinfo w s"
| "run (UpdateInfo stack) w s = upsdrv_updateinfo stack w s"
| "run Shutdown w s = upsdrv_shutdown w s"
| "run Cleanup w s = Inr (upsdrv_cleanup w s)"
| "run Help w s = Inr (w, upsdrv_help s)"
| "run MakeVarTable w s = Inr (w, upsdrv_makevartable s)"

subsection \<open>The spec's side of the claims\<close>

text \<open>
  The encoder of the round-trip property.  The driver has none: this one follows the
  spec's description of the block, the 16-bit fields little-endian
  (\<^verbatim>\<open>low_byte | (high_byte << 8)\<close>) at their fixed offsets, a negative current as
  \<open>65536\<close> minus its magnitude.  \<open>base\<close> gives the bytes of the block that belong to
  no field of the property.
\<close>

record fields =
  current :: int
  voltage :: int
  capacity :: int
  runtime :: int
  temperature :: int

definition lo_byte :: "int \<Rightarrow> byte" where
  "lo_byte v = word_of_int (v mod 256)"

definition hi_byte :: "int \<Rightarrow> byte" where
  "hi_byte v = word_of_int (v div 256 mod 256)"

definition spec_encode_block :: "fields \<Rightarrow> byte list \<Rightarrow> byte list" where
  "spec_encode_block f base =
     base[BATTERY_CURRENT - READ_OFFSET := lo_byte (current f mod 65536),
          BATTERY_CURRENT + 1 - READ_OFFSET := hi_byte (current f mod 65536),
          BATTERY_VOLTAGE - READ_OFFSET := lo_byte (voltage f),
          BATTERY_VOLTAGE + 1 - READ_OFFSET := hi_byte (voltage f),
          BATTERY_CAPACITY - READ_OFFSET := lo_byte (capacity f),
          BATTERY_CAPACITY + 1 - READ_OFFSET := hi_byte (capacity f),
          BATTERY_TIME - READ_OFFSET := lo_byte (runtime f),
          BATTERY_TIME + 1 - READ_OFFSET := hi_byte (runtime f),
          BATTERY_TEMPERATURE - READ_OFFSET := lo_byte (temperature f)]"

text \<open>
  The spec's table of section 4.4, from the device-state code to the tags, and the tags
  of a status string: its words, with spaces between them.
\<close>

definition spec_table_tags :: "int \<Rightarrow> string list" where
  "spec_table_tags c =
     (if c = 0 then [''OL'']
      else if c = 1 \<or> c = 2 \<or> c = 3 then [''OL'', ''CHRG'']
      else if c = 4 then [''OL'']
      else if c = 5 then [''OB'']
      else if c = 6 \<or> c = 7 then [''OB'', ''LB'']
      else [])"

fun split_words :: "string \<Rightarrow> string \<Rightarrow> string list" where
  "split_words cur [] = (if cur = [] then [] else [cur])"
| "split_words cur (c # cs) =
     (if c = CHR '' '' then (if cur = [] then split_words [] cs else cur # split_words [] cs)
      else split_words (cur @ [c]) cs)"

definition status_tags :: "string \<Rightarrow> string list" where
  "status_tags str = split_words [] str"

subsection \<open>Sample inputs\<close>

text \<open>
  A driver that has identified its device and has published nothing yet; the same with
  the latch set; the same with the latch set after an I/O error has reset
  \<^verbatim>\<open>device_initialized\<close>; and a stack of zero bytes.
\<close>

definition idle_driver :: driver where
  "idle_driver = \<lparr>device_initialized = 1, fsd_latch = 0, upsfd = 3, info = Map.empty,
     status_buf = [], data_state = NoData, syslog = [], console = []\<rparr>"

definition latched_driver :: driver where
  "latched_driver = idle_driver\<lparr>fsd_latch := 1\<rparr>"

definition lost_driver :: driver where
  "lost_driver = idle_driver\<lparr>device_initialized := 0, fsd_latch := 1\<rparr>"

definition zero_stack :: buffer where
  "zero_stack = (\<lambda>i. 0)"

text \<open>
  Telemetry blocks as the device sends them, from offset \<open>0x42\<close> on.  The first has
  button state 0, battery state 2 (charging), current \<open>0xEA60\<close>, voltage 5000, capacity
  450, runtime 3600, temperature 25, maximum capacity 500 and seconds 7.  The others
  differ from it in one field: maximum capacity 0; battery state 8; battery state 9;
  button state 9; button state 2.
\<close>

definition sample_block :: "byte list" where
  "sample_block = [0, 0, 0, 0, 2, 0, 0x60, 0xEA, 0x88, 0x13, 0xC2, 0x01, 0x10, 0x0E, 25, 0,
                   0, 0, 0, 0, 0xF4, 0x01, 7, 0, 0]"

definition flat_battery_block :: "byte list" where
  "flat_battery_block = [0, 0, 0, 0, 2, 0, 0x60, 0xEA, 0x88, 0x13, 0xC2, 0x01, 0x10, 0x0E, 25, 0,
                         0, 0, 0, 0, 0, 0, 7, 0, 0]"

definition fault_block :: "byte list" where
  "fault_block = [0, 0, 0, 0, 8, 0, 0x60, 0xEA, 0x88, 0x13, 0xC2, 0x01, 0x10, 0x0E, 25, 0,
                  0, 0, 0, 0, 0xF4, 0x01, 7, 0, 0]"

definition state_9_block :: "byte list" where
  "state_9_block = [0, 0, 0, 0, 9, 0, 0x60, 0xEA, 0x88, 0x13, 0xC2, 0x01, 0x10, 0x0E, 25, 0,
                    0, 0, 0, 0, 0xF4, 0x01, 7, 0, 0]"

definition button_9_block :: "byte list" where
  "button_9_block = [0, 9, 0, 0, 2, 0, 0x60, 0xEA, 0x88, 0x13, 0xC2, 0x01, 0x10, 0x0E, 25, 0,
                     0, 0, 0, 0, 0xF4, 0x01, 7, 0, 0]"

definition button_2_block :: "byte list" where
  "button_2_block = [0, 2, 0, 0, 2, 0, 0x60, 0xEA, 0x88, 0x13, 0xC2, 0x01, 0x10, 0x0E, 25, 0,
                     0, 0, 0, 0, 0xF4, 0x01, 7, 0, 0]"

definition sample_fields :: fields where
  "sample_fields = \<lparr>current = - 5536, voltage = 5000, capacity = 450, runtime = 3600, temperature = 25\<rparr>"

text \<open>
  Environments of an identity probe: the address is accepted, then each string is
  selected and read.  In the first the vendor is \<open>Openelec\<close>, the model \<open>SmartUPS\<close>, the
  firmware \<open>V1.03\<close>; in the second the vendor is \<open>Acme\<close>, padded with nulls; in the third
  the vendor is read, the read of the model fails, and the poll then reads the sample
  block.
\<close>

definition openelec_world :: world where
  "openelec_world =
     [Resp 0 [], Resp 1 [], Resp 8 [79, 112, 101, 110, 101, 108, 101, 99],
      Resp 1 [], Resp 8 [83, 109, 97, 114, 116, 85, 80, 83],
      Resp 1 [], Resp 8 [86, 49, 46, 48, 51, 0, 0, 0]]"

definition acme_world :: world where
  "acme_world =
     [Resp 0 [], Resp 1 [], Resp 8 [65, 99, 109, 101, 0, 0, 0, 0],
      Resp 1 [], Resp 8 [83, 109, 97, 114, 116, 85, 80, 83],
      Resp 1 [], Resp 8 [86, 49, 46, 48, 51, 0, 0, 0]]"

definition partial_world :: world where
  "partial_world =
     [Resp 0 [], Resp 1 [], Resp 8 [79, 112, 101, 110, 101, 108, 101, 99],
      Resp 1 [], Resp (- 1) [],
      Resp 1 [], Resp 25 sample_block]"

text \<open>The complete probe of \<open>openelec_world\<close>, followed by the poll of the sample block.\<close>

definition reprobe_world :: world where
  "reprobe_world = openelec_world @ [Resp 1 [], Resp 25 sample_block]"

text \<open>The first 20 bytes of the sample block: everything before the maximum capacity.\<close>

definition short_block :: "byte list" where
  "short_block = [0, 0, 0, 0, 2, 0, 0x60, 0xEA, 0x88, 0x13, 0xC2, 0x01, 0x10, 0x0E, 25, 0,
                  0, 0, 0, 0]"


section \<open>Basic facts\<close>

subsection \<open>What each helper leaves alone\<close>

lemma status_set_fields [simp]:
  "info (status_set t s) = info s" "fsd_latch (status_set t s) = fsd_latch s"
  "device_initialized (status_set t s) = device_initialized s"
  "data_state (status_set t s) = data_state s" "syslog (status_set t s) = syslog s"
  by (simp_all add: status_set_def)

lemma status_init_fields [simp]:
  "info (status_init s) = info s" "fsd_latch (status_init s) = fsd_latch s"
  "device_initialized (status_init s) = device_initialized s"
  "data_state (status_init s) = data_state s" "syslog (status_init s) = syslog s"
  "status_buf (status_init s) = []"
  by (simp_all add: status_init_def)

lemma upslogx_fields [simp]:
  "info (upslogx m s) = info s" "fsd_latch (upslogx m s) = fsd_latch s"
  "device_initialized (upslogx m s) = device_initialized s"
  "data_state (upslogx m s) = data_state s" "syslog (upslogx m s) = syslog s @ [m]"
  "status_buf (upslogx m s) = status_buf s"
  by (simp_all add: upslogx_def)

lemma upslog_with_errno_fields [simp]:
  "info (upslog_with_errno m s) = info s" "fsd_latch (upslog_with_errno m s) = fsd_latch s"
  "device_initialized (upslog_with_errno m s) = device_initialized s"
  "data_state (upslog_with_errno m s) = data_state s"
  "syslog (upslog_with_errno m s) = syslog s @ [m]"
  "status_buf (upslog_with_errno m s) = status_buf s"
  by (simp_all add: upslog_with_errno_def)

lemma logged_fields [simp]:
  "info (logged l s) = info s" "fsd_latch (logged l s) = fsd_latch s"
  "device_initialized (logged l s) = device_initialized s"
  "data_state (logged l s) = data_state s" "syslog (logged l s) = syslog s @ l"
  "status_buf (logged l s) = status_buf s"
  by (simp_all add: logged_def)

lemma dstate_setinfo_fields [simp]:
  "info (dstate_setinfo var val s) = (info s)(var \<mapsto> val)"
  "fsd_latch (dstate_setinfo var val s) = fsd_latch s"
  "device_initialized (dstate_setinfo var val s) = device_initialized s"
  "data_state (dstate_setinfo var val s) = data_state s"
  "syslog (dstate_setinfo var val s) = syslog s"
  "status_buf (dstate_setinfo var val s) = status_buf s"
  by (simp_all add: dstate_setinfo_def)

lemma dstate_dataok_fields [simp]:
  "info (dstate_dataok s) = info s" "fsd_latch (dstate_dataok s) = fsd_latch s"
  "device_initialized (dstate_dataok s) = device_initialized s"
  "data_state (dstate_dataok s) = DataOk" "syslog (dstate_dataok s) = syslog s"
  "status_buf (dstate_dataok s) = status_buf s"
  by (simp_all add: dstate_dataok_def)

lemma dstate_datastale_fields [simp]:
  "info (dstate_datastale s) = info s" "fsd_latch (dstate_datastale s) = fsd_latch s"
  "device_initialized (dstate_datastale s) = device_initialized s"
  "data_state (dstate_datastale s) = Stale" "syslog (dstate_datastale s) = syslog s"
  "status_buf (dstate_datastale s) = status_buf s"
  by (simp_all add: dstate_datastale_def)

lemma printf_fields [simp]:
  "info (printf m s) = info s" "fsd_latch (printf m s) = fsd_latch s"
  "device_initialized (printf m s) = device_initialized s"
  "data_state (printf m s) = data_state s" "syslog (printf m s) = syslog s"
  "status_buf (printf m s) = status_buf s"
  by (simp_all add: printf_def)

lemma Inr_projr: "\<not> isl r \<Longrightarrow> r = Inr (fst (projr r), snd (projr r))"
  by (cases r) simp_all

subsection \<open>System calls\<close>

lemma sys_read_length:
  "sys_read len w = (n, bs, w') \<Longrightarrow> length bs \<le> len \<and> (0 \<le> n \<longrightarrow> n = int (length bs))"
  by (auto simp: sys_read_def Let_def split: prod.splits if_splits)

lemma i2c_read_cstring_ok:
  assumes "sys_write w = (r1, w1)" "\<not> r1 < 0" "sys_read len w1 = (n, raw, w2)" "\<not> n < 0"
  shows "\<exists>l. i2c_read_cstring start len w = (0, raw @ [0], w2, l)"
  using assms by (simp add: i2c_read_cstring_def)

subsection \<open>Sixteen-bit fields\<close>

lemma rd16_eq: "rd16 buf off = uint (buf off) + 256 * uint (buf (off + 1))"
proof -
  have tb: "take_bit 8 (uint (buf off)) = uint (buf off)"
    by (rule take_bit_int_eq_self) (use uint_lt2p [of "buf off"] in simp_all)
  have "uint (buf off) OR push_bit 8 (uint (buf (off + 1))) =
          concat_bit 8 (uint (buf off)) (uint (buf (off + 1)))"
    unfolding concat_bit_def tb ..
  also have "\<dots> = uint (buf off) + 256 * uint (buf (off + 1))"
    unfolding concat_bit_eq tb by (simp add: push_bit_eq_mult)
  finally show ?thesis
    by (simp add: rd16_def)
qed

lemma rd16_range: "0 \<le> rd16 buf off \<and> rd16 buf off < 65536"
  using uint_lt2p [of "buf off"] uint_lt2p [of "buf (off + 1)"]
  by (simp add: rd16_eq)

text \<open>
  The source computes in \<^verbatim>\<open>int\<close>, 32 bits wide.  A 16-bit field, its sign correction and
  the product of line 286 stay far inside that range, so nothing wraps and the model
  computes in \<open>int\<close>.
\<close>

lemma no_wrap:
  "0 < 65536 - rd16 buf off \<and> 65536 - rd16 buf off \<le> 65536 \<and> 100 * rd16 buf off < 2 ^ 31"
  using rd16_range [of buf off] by simp

lemma rd16_bytes:
  assumes "0 \<le> r" "r < 65536" "buf off = word_of_int r" "buf (off + 1) = word_of_int (r div 256)"
  shows "rd16 buf off = r"
proof -
  have "uint (word_of_int r :: byte) = r mod 256"
    by (simp add: uint_word_of_int)
  moreover have "uint (word_of_int (r div 256) :: byte) = r div 256"
    using assms by (simp add: uint_word_of_int)
  ultimately show ?thesis
    using assms by (simp add: rd16_eq)
qed

lemma bit15:
  fixes r :: int
  assumes "0 \<le> r" "r < 65536"
  shows "(r AND push_bit 15 1 \<noteq> 0) = (32768 \<le> r)"
proof -
  have "(r AND push_bit 15 1 \<noteq> 0) = bit r 15"
    by (simp add: bit_iff_and_push_bit_not_eq_0)
  also have "\<dots> = odd (r div 2 ^ 15)"
    by (simp add: bit_iff_odd)
  also have "\<dots> = (32768 \<le> r)"
  proof (cases "32768 \<le> r")
    case True
    then have "r div 32768 = 1" using assms by simp
    then show ?thesis using True by simp
  next
    case False
    then have "r div 32768 = 0" using assms by simp
    then show ?thesis using False by simp
  qed
  finally show ?thesis .
qed

lemma decode_current:
  assumes "0 \<le> r" "r < 65536" "rd16 buf BATTERY_CURRENT = r"
  shows "sign (decode_telemetry buf) = (if r < 32768 then CHR ''+'' else CHR ''-'')"
    and "battery_current (decode_telemetry buf) = (if r < 32768 then r else 65536 - r)"
  using assms bit15 [of r] by (auto simp: decode_telemetry_def Let_def)

subsection \<open>Decimal digits\<close>

lemma to_unsigned_id: "0 \<le> i \<Longrightarrow> i < 4294967296 \<Longrightarrow> to_unsigned i = i"
  by (simp add: to_unsigned_def)

lemma digit_0: "digit 0 = CHR ''0''"
  by (simp add: digit_def)

lemma dec_small: "n < 10 \<Longrightarrow> dec n = [digit n]"
  by (simp add: dec.simps)

lemma dec_two: "10 \<le> n \<Longrightarrow> n < 100 \<Longrightarrow> dec n = [digit (n div 10), digit (n mod 10)]"
  by (subst dec.simps) (simp add: dec_small)

lemma dec_three:
  assumes "100 \<le> n" "n < 1000"
  shows "dec n = [digit (n div 100), digit (n div 10 mod 10), digit (n mod 10)]"
proof -
  have "n div 10 div 10 = n div 100"
    by (simp flip: div_mult2_eq)
  with assms show ?thesis
    by (subst dec.simps) (simp add: dec_two)
qed

lemma fmt_03d_digits:
  assumes "0 \<le> x" "x < 1000"
  shows "fmt_03d x = [digit (nat x div 100), digit (nat x div 10 mod 10), digit (nat x mod 10)]"
proof -
  consider "nat x < 10" | "10 \<le> nat x" "nat x < 100" | "100 \<le> nat x" "nat x < 1000"
    using assms by linarith
  then show ?thesis
  proof cases
    case 1
    then show ?thesis
      using assms by (simp add: fmt_03d_def zero_pad_def dec_small numeral_3_eq_3 digit_0)
  next
    case 2
    then show ?thesis
      using assms by (simp add: fmt_03d_def zero_pad_def dec_two digit_0)
  next
    case 3
    then show ?thesis
      using assms by (simp add: fmt_03d_def zero_pad_def dec_three)
  qed
qed

subsection \<open>The steps of a poll\<close>

lemma publish_battery_fields [simp]:
  "fsd_latch (publish_battery t s) = fsd_latch s"
  "device_initialized (publish_battery t s) = device_initialized s"
  "syslog (publish_battery t s) = syslog s"
  by (simp_all add: publish_battery_def Let_def)

lemma info_publish_battery:
  "info (publish_battery t s) = (info s)
     (''battery.current'' \<mapsto> sign t # fmt_d (to_unsigned (battery_current t) div 1000) @ ''.''
                    @ fmt_03d (to_unsigned (battery_current t) mod 1000),
      ''battery.voltage'' \<mapsto> fmt_d (to_unsigned (battery_voltage t) div 1000) @ ''.''
                    @ fmt_03d (to_unsigned (battery_voltage t) mod 1000),
      ''battery.runtime'' \<mapsto> fmt_d (battery_time t),
      ''battery.temperature'' \<mapsto> fmt_d (battery_temperature t))"
  by (simp add: publish_battery_def Let_def)

lemma publish_telemetry_Inr:
  assumes "publish_telemetry t s = Inr s1"
  shows "battery_max_capacity t \<noteq> 0"
    and "info s1 = (info (publish_battery t s))
       (''battery.charge'' \<mapsto> fmt_d (sgn (100 * battery_capacity t) * sgn (battery_max_capacity t)
                                   * (\<bar>100 * battery_capacity t\<bar> div \<bar>battery_max_capacity t\<bar>)),
        ''ups.time'' \<mapsto> fmt_d (seconds t))"
    and "fsd_latch s1 = fsd_latch s" and "device_initialized s1 = device_initialized s"
    and "syslog s1 = syslog s"
  using assms by (auto simp: publish_telemetry_def c_div_def split: if_splits)

lemma latch_step_latch:
  "fsd_latch (latch_step b s) =
     (if b = 1 \<or> b = 2 \<or> b = 3 then 0 else if b = 9 \<or> b = 10 then 1 else fsd_latch s)"
  by (simp add: latch_step_def Let_def)

lemma latch_step_fields [simp]:
  "device_initialized (latch_step b s) = device_initialized s"
  "data_state (latch_step b s) = data_state s"
  "syslog (latch_step b s) = syslog s"
  "status_buf (latch_step b s) = status_buf s"
  "info (latch_step b s) = (info s)(''ups.contacts'' \<mapsto> fmt_x (b AND 3))"
  by (simp_all add: latch_step_def Let_def)

lemma status_step_fields [simp]:
  "fsd_latch (status_step c s) = fsd_latch s"
  "device_initialized (status_step c s) = device_initialized s"
  "data_state (status_step c s) = data_state s"
  "info (status_step c s) = (info s)(''ups.status'' \<mapsto> status_buf (status_step c s))"
  by (simp_all add: status_step_def Let_def status_commit_def)

lemma status_step_result:
  "status_buf (status_step c s) =
     (if fsd_latch s \<noteq> 0 then
        (if c = 0 \<or> c = 4 then ''OL FSD''
         else if c = 1 \<or> c = 2 \<or> c = 3 then ''OL CHRG FSD''
         else if c = 5 then ''OB FSD''
         else if c = 6 \<or> c = 7 then ''OB LB FSD''
         else ''FSD'')
      else
        (if c = 0 \<or> c = 4 then ''OL''
         else if c = 1 \<or> c = 2 \<or> c = 3 then ''OL CHRG''
         else if c = 5 then ''OB''
         else if c = 6 \<or> c = 7 then ''OB LB''
         else ''''))"
  by (simp add: status_step_def Let_def status_commit_def status_set_def status_init_def upslogx_def
      dstate_setinfo_def)

lemma status_step_syslog:
  "syslog (status_step c s) =
     (if c = 0 \<or> c = 1 \<or> c = 2 \<or> c = 3 \<or> c = 4 \<or> c = 5 \<or> c = 6 \<or> c = 7 then syslog s
      else syslog s @ [''upsdrv_updateinfo: unknown battery state 0x'' @ fmt_02x c])"
  by (simp add: status_step_def Let_def status_commit_def)

lemma decode_publish_Inr:
  assumes "decode_publish buf s = Inr s'"
  obtains s1 where "publish_telemetry (decode_telemetry buf) s = Inr s1"
    and "s' = dstate_dataok (status_step (battery_state (decode_telemetry buf))
                 (latch_step (button_state (decode_telemetry buf)) s1))"
  using assms by (auto simp: decode_publish_def Let_def split: sum.splits)

lemma decode_publish_total:
  "rd16 buf BATTERY_MAX_CAPACITY \<noteq> 0 \<Longrightarrow> \<exists>s'. decode_publish buf s = Inr s'"
  by (simp add: decode_publish_def decode_telemetry_def publish_telemetry_def c_div_def Let_def)

lemma decode_publish_crash:
  "rd16 buf BATTERY_MAX_CAPACITY = 0 \<Longrightarrow> decode_publish buf s = Inl DivisionByZero"
  by (simp add: decode_publish_def decode_telemetry_def publish_telemetry_def c_div_def Let_def)

lemma decode_publish_fields:
  assumes "decode_publish buf s = Inr s'"
  shows "device_initialized s' = device_initialized s" and "data_state s' = DataOk"
    and "info s' ''ups.mfr'' = info s ''ups.mfr''"
    and "info s' ''battery.current'' = info (publish_battery (decode_telemetry buf) s) ''battery.current''"
    and "info s' ''ups.status'' = Some (status_buf s')"
proof -
  obtain s1 where p: "publish_telemetry (decode_telemetry buf) s = Inr s1"
    and s': "s' = dstate_dataok (status_step (battery_state (decode_telemetry buf))
                 (latch_step (button_state (decode_telemetry buf)) s1))"
    using assms by (rule decode_publish_Inr)
  show "device_initialized s' = device_initialized s" and "data_state s' = DataOk"
    using publish_telemetry_Inr(4) [OF p] by (simp_all add: s')
  show "info s' ''ups.mfr'' = info s ''ups.mfr''"
    by (simp add: s' publish_telemetry_Inr(2) [OF p] info_publish_battery)
  show "info s' ''battery.current'' = info (publish_battery (decode_telemetry buf) s) ''battery.current''"
    by (simp add: s' publish_telemetry_Inr(2) [OF p])
  show "info s' ''ups.status'' = Some (status_buf s')"
    by (simp add: s')
qed

lemma decode_publish_latch:
  assumes "decode_publish buf s = Inr s'" and "b = uint (buf BUTTON_STATE)"
  shows "fsd_latch s' =
           (if b = 1 \<or> b = 2 \<or> b = 3 then 0 else if b = 9 \<or> b = 10 then 1 else fsd_latch s)"
proof -
  obtain s1 where p: "publish_telemetry (decode_telemetry buf) s = Inr s1"
    and s': "s' = dstate_dataok (status_step (battery_state (decode_telemetry buf))
                 (latch_step (button_state (decode_telemetry buf)) s1))"
    using assms(1) by (rule decode_publish_Inr)
  have "button_state (decode_telemetry buf) = b"
    by (simp add: assms(2) decode_telemetry_def Let_def)
  then show ?thesis
    using publish_telemetry_Inr(3) [OF p] by (simp add: s' latch_step_latch)
qed

lemma decode_publish_status:
  assumes "decode_publish buf s = Inr s'" and "c = uint (buf BATTERY_STATE)"
  obtains s2 where "fsd_latch s2 = fsd_latch s'" and "syslog s2 = syslog s"
    and "status_buf s' = status_buf (status_step c s2)"
    and "syslog s' = syslog (status_step c s2)"
proof -
  obtain s1 where p: "publish_telemetry (decode_telemetry buf) s = Inr s1"
    and s': "s' = dstate_dataok (status_step (battery_state (decode_telemetry buf))
                 (latch_step (button_state (decode_telemetry buf)) s1))"
    using assms(1) by (rule decode_publish_Inr)
  have c: "battery_state (decode_telemetry buf) = c"
    by (simp add: assms(2) decode_telemetry_def Let_def)
  show thesis
    by (rule that [of "latch_step (button_state (decode_telemetry buf)) s1"])
       (simp_all add: s' c publish_telemetry_Inr(5) [OF p])
qed

lemma read_block_Some:
  "read_block stack w s = (w', s', Some buf) \<Longrightarrow> s' = s"
  by (auto simp: read_block_def Let_def split: prod.splits if_splits)

lemma read_block_None:
  "read_block stack w s = (w', s', None) \<Longrightarrow>
     data_state s' = Stale \<and> device_initialized s' = 0 \<and> fsd_latch s' = fsd_latch s \<and> info s' = info s"
  by (auto simp: read_block_def Let_def split: prod.splits if_splits)

lemma upsdrv_updateinfo_Inr:
  assumes "upsdrv_updateinfo stack w s = Inr (w', s')"
  obtains (stale) w1 s1 where "lazy_probe w s = Inr (w1, s1)" "read_block stack w1 s1 = (w', s', None)"
  | (ok) w1 s1 buf where "lazy_probe w s = Inr (w1, s1)" "read_block stack w1 s1 = (w', s1, Some buf)"
      "decode_publish buf s1 = Inr s'"
  using assms unfolding upsdrv_updateinfo_def
  by (auto split: sum.splits prod.splits option.splits dest: read_block_Some)

lemma upsdrv_updateinfo_returns:
  assumes "lazy_probe w s = Inr (w1, s1)"
    and "read_block stack w1 s1 = (w2, s2, Some buf)"
    and "rd16 buf BATTERY_MAX_CAPACITY \<noteq> 0"
  shows "\<not> isl (upsdrv_updateinfo stack w s)"
  using decode_publish_total [OF assms(3), of s2]
  by (auto simp: upsdrv_updateinfo_def assms(1,2))

subsection \<open>Evaluating the model\<close>

lemmas probe_simps = smartups_read_ID_def select_slave_def sys_ioctl_def i2c_read_cstring_def
  sys_write_def sys_read_def Let_def cstring_def char_of_def bit_0 bit_Suc

lemmas poll_simps = upsdrv_updateinfo_def lazy_probe_def read_block_def decode_publish_def
  decode_telemetry_def publish_telemetry_def publish_battery_def c_div_def rd16_def store_def
  sys_write_def sys_read_def Let_def

lemmas step_simps = latch_step_def status_step_def status_init_def status_set_def status_commit_def
  dstate_setinfo_def dstate_dataok_def dstate_datastale_def upslogx_def upslog_with_errno_def
  logged_def fmt_02x_def fmt_x_def fmt_d_def fmt_03d_def to_unsigned_def zero_pad_def

lemma lazy_probe_idle: "lazy_probe w idle_driver = Inr (w, idle_driver)"
  by (simp add: lazy_probe_def idle_driver_def)

lemma sample_poll:
  "decode_publish (store sample_block READ_OFFSET zero_stack) idle_driver
     = Inr (projr (decode_publish (store sample_block READ_OFFSET zero_stack) idle_driver))"
  by (simp add: decode_publish_def decode_telemetry_def publish_telemetry_def c_div_def Let_def
      rd16_def store_def sample_block_def zero_stack_def)


section \<open>The battery current\<close>

text \<open>
  Claim C5.  For every raw 16-bit battery current \<open>r\<close> in \<open>[0, 65535]\<close>, laid out low byte
  first at \<^verbatim>\<open>BATTERY_CURRENT\<close>: below 32768 the decoded magnitude is \<open>r\<close> and the sign is
  \<open>+\<close>, from 32768 on the magnitude is \<open>65536 - r\<close> and the sign is \<open>-\<close>.  The value set
  for \<^verbatim>\<open>battery.current\<close> (line 226) is the sign character, the magnitude divided by 1000
  in decimal, a point, and the three decimal digits of the magnitude modulo 1000; a poll
  that runs to its end leaves that value published.
\<close>

theorem battery_current_sign_magnitude:
  assumes "0 \<le> r" and "r < 65536"
    and "buf BATTERY_CURRENT = word_of_int r"
    and "buf (BATTERY_CURRENT + 1) = word_of_int (r div 256)"
    and "m = (if r < 32768 then r else 65536 - r)"
    and "c = (if r < 32768 then CHR ''+'' else CHR ''-'')"
    and "str = c # dec (nat (m div 1000)) @ ''.'' @
                 [digit (nat (m mod 1000) div 100), digit (nat (m mod 1000) div 10 mod 10),
                  digit (nat (m mod 1000) mod 10)]"
  shows "battery_current (decode_telemetry buf) = m \<and> sign (decode_telemetry buf) = c \<and>
         info (publish_battery (decode_telemetry buf) s) ''battery.current'' = Some str \<and>
         (decode_publish buf s = Inr s' \<longrightarrow> info s' ''battery.current'' = Some str)"
proof -
  let ?t = "decode_telemetry buf"
  have r: "rd16 buf BATTERY_CURRENT = r"
    using assms(1-4) by (intro rd16_bytes) simp_all
  have m: "battery_current ?t = m" and c: "sign ?t = c"
    using decode_current [OF assms(1,2) r] assms(5,6) by simp_all
  have mr: "0 \<le> m" "m < 4294967296"
    using assms(1,2,5) by (auto split: if_splits)
  have "info (publish_battery ?t s) ''battery.current'' =
          Some (c # fmt_d (m div 1000) @ ''.'' @ fmt_03d (m mod 1000))"
    using mr by (simp add: info_publish_battery m c to_unsigned_id)
  also have "fmt_d (m div 1000) = dec (nat (m div 1000))"
    using mr by (simp add: fmt_d_def)
  also have "fmt_03d (m mod 1000) =
      [digit (nat (m mod 1000) div 100), digit (nat (m mod 1000) div 10 mod 10),
       digit (nat (m mod 1000) mod 10)]"
    by (rule fmt_03d_digits) simp_all
  finally have p: "info (publish_battery ?t s) ''battery.current'' = Some str"
    by (simp add: assms(7))
  then have "decode_publish buf s = Inr s' \<longrightarrow> info s' ''battery.current'' = Some str"
    using decode_publish_fields(4) [of buf s s'] by simp
  with m c p show ?thesis
    by simp
qed

text \<open>The raw value 60000 is published as \<open>-5.536\<close>.\<close>

theorem battery_current_sign_magnitude_witness:
  "battery_current (decode_telemetry (store sample_block READ_OFFSET zero_stack)) = 5536 \<and>
   sign (decode_telemetry (store sample_block READ_OFFSET zero_stack)) = CHR ''-'' \<and>
   info (projr (decode_publish (store sample_block READ_OFFSET zero_stack) idle_driver))
     ''battery.current'' = Some ''-5.536''"
proof -
  let ?buf = "store sample_block READ_OFFSET zero_stack"
  have b: "?buf BATTERY_CURRENT = word_of_int 60000"
    "?buf (BATTERY_CURRENT + 1) = word_of_int (60000 div 256)"
    by (simp_all add: store_def sample_block_def)
  have str: "''-5.536'' = CHR ''-'' # dec (nat (5536 div 1000)) @ ''.'' @
                 [digit (nat (5536 mod 1000) div 100), digit (nat (5536 mod 1000) div 10 mod 10),
                  digit (nat (5536 mod 1000) mod 10)]"
    by (simp add: dec.simps digit_def)
  from battery_current_sign_magnitude [of 60000 ?buf 5536 "CHR ''-''" "''-5.536''" idle_driver,
      OF _ _ b _ _ str] sample_poll
  show ?thesis
    by simp
qed


section \<open>Encoding and decoding the telemetry block\<close>

lemma lo_hi_value:
  assumes "0 \<le> v" "v < 65536"
  shows "uint (lo_byte v) + 256 * uint (hi_byte v) = v"
proof -
  have "uint (lo_byte v) = v mod 256"
    by (simp add: lo_byte_def uint_word_of_int)
  moreover have "uint (hi_byte v) = v div 256"
    using assms by (simp add: hi_byte_def uint_word_of_int)
  ultimately show ?thesis
    by simp
qed

lemma uint_lo_byte: "0 \<le> v \<Longrightarrow> v < 256 \<Longrightarrow> uint (lo_byte v) = v"
  by (simp add: lo_byte_def uint_word_of_int)

text \<open>
  Claim C7.  For field values in their ranges (a signed 16-bit current, unsigned 16-bit
  voltage, capacity and runtime, a temperature of one byte), the block built by the
  encoder, read into the buffer at \<^verbatim>\<open>READ_OFFSET\<close>, decodes to exactly those values: the
  sign and magnitude of the current, and the voltage, capacity, runtime and temperature.
\<close>

theorem telemetry_round_trip:
  assumes "length base = READ_LEN"
    and "- 32768 \<le> current f" and "current f < 32768"
    and "0 \<le> voltage f" and "voltage f < 65536"
    and "0 \<le> capacity f" and "capacity f < 65536"
    and "0 \<le> runtime f" and "runtime f < 65536"
    and "0 \<le> temperature f" and "temperature f < 256"
    and "t = decode_telemetry (store (spec_encode_block f base) READ_OFFSET stack)"
  shows "sign t = (if current f < 0 then CHR ''-'' else CHR ''+'') \<and>
         battery_current t = \<bar>current f\<bar> \<and>
         battery_voltage t = voltage f \<and>
         battery_capacity t = capacity f \<and>
         battery_time t = runtime f \<and>
         battery_temperature t = temperature f"
proof -
  let ?buf = "store (spec_encode_block f base) READ_OFFSET stack"
  let ?r = "current f mod 65536"
  have r: "0 \<le> ?r" "?r < 65536"
    by simp_all
  have "rd16 ?buf BATTERY_CURRENT = uint (lo_byte ?r) + 256 * uint (hi_byte ?r)"
    using assms(1) by (simp add: rd16_eq store_def spec_encode_block_def)
  then have cur: "rd16 ?buf BATTERY_CURRENT = ?r"
    using lo_hi_value [OF r] by simp
  have "rd16 ?buf BATTERY_VOLTAGE = uint (lo_byte (voltage f)) + 256 * uint (hi_byte (voltage f))"
    using assms(1) by (simp add: rd16_eq store_def spec_encode_block_def)
  then have vol: "rd16 ?buf BATTERY_VOLTAGE = voltage f"
    using lo_hi_value [OF assms(4,5)] by simp
  have "rd16 ?buf BATTERY_CAPACITY = uint (lo_byte (capacity f)) + 256 * uint (hi_byte (capacity f))"
    using assms(1) by (simp add: rd16_eq store_def spec_encode_block_def)
  then have cap: "rd16 ?buf BATTERY_CAPACITY = capacity f"
    using lo_hi_value [OF assms(6,7)] by simp
  have "rd16 ?buf BATTERY_TIME = uint (lo_byte (runtime f)) + 256 * uint (hi_byte (runtime f))"
    using assms(1) by (simp add: rd16_eq store_def spec_encode_block_def)
  then have tim: "rd16 ?buf BATTERY_TIME = runtime f"
    using lo_hi_value [OF assms(8,9)] by simp
  have "uint (?buf BATTERY_TEMPERATURE) = uint (lo_byte (temperature f))"
    using assms(1) by (simp add: store_def spec_encode_block_def)
  then have tem: "uint (?buf BATTERY_TEMPERATURE) = temperature f"
    using uint_lo_byte [OF assms(10,11)] by simp
  have rcases: "?r = (if current f < 0 then 65536 + current f else current f)"
  proof (cases "current f < 0")
    case True
    then have "(current f + 65536) mod 65536 = current f + 65536"
      using assms(2) by (intro mod_pos_pos_trivial) simp_all
    then show ?thesis using True by simp
  next
    case False
    then show ?thesis using assms(3) by simp
  qed
  have "sign t = (if ?r < 32768 then CHR ''+'' else CHR ''-'')"
    and "battery_current t = (if ?r < 32768 then ?r else 65536 - ?r)"
    using decode_current [OF r cur] assms(12) by simp_all
  then have "sign t = (if current f < 0 then CHR ''-'' else CHR ''+'')"
    and "battery_current t = \<bar>current f\<bar>"
    using rcases assms(2,3) by (simp_all split: if_splits)
  moreover have "battery_voltage t = voltage f" "battery_capacity t = capacity f"
    "battery_time t = runtime f" "battery_temperature t = temperature f"
    using vol cap tim tem by (simp_all add: assms(12) decode_telemetry_def Let_def)
  ultimately show ?thesis
    by simp
qed

text \<open>The fields of the sample block, encoded over a block of zeros and decoded.\<close>

theorem telemetry_round_trip_witness:
  "spec_encode_block sample_fields (replicate 25 0) =
     [0, 0, 0, 0, 0, 0, 0x60, 0xEA, 0x88, 0x13, 0xC2, 0x01, 0x10, 0x0E, 25, 0, 0, 0, 0, 0, 0, 0, 0, 0, 0] \<and>
   sign (decode_telemetry (store (spec_encode_block sample_fields (replicate 25 0)) READ_OFFSET zero_stack)) = CHR ''-'' \<and>
   battery_current (decode_telemetry (store (spec_encode_block sample_fields (replicate 25 0)) READ_OFFSET zero_stack)) = 5536 \<and>
   battery_voltage (decode_telemetry (store (spec_encode_block sample_fields (replicate 25 0)) READ_OFFSET zero_stack)) = 5000 \<and>
   battery_capacity (decode_telemetry (store (spec_encode_block sample_fields (replicate 25 0)) READ_OFFSET zero_stack)) = 450 \<and>
   battery_time (decode_telemetry (store (spec_encode_block sample_fields (replicate 25 0)) READ_OFFSET zero_stack)) = 3600 \<and>
   battery_temperature (decode_telemetry (store (spec_encode_block sample_fields (replicate 25 0)) READ_OFFSET zero_stack)) = 25"
proof -
  have "spec_encode_block sample_fields (replicate 25 0) =
     [0, 0, 0, 0, 0, 0, 0x60, 0xEA, 0x88, 0x13, 0xC2, 0x01, 0x10, 0x0E, 25, 0, 0, 0, 0, 0, 0, 0, 0, 0, 0]"
    by (simp add: spec_encode_block_def sample_fields_def lo_byte_def hi_byte_def numeral_eq_Suc)
  moreover note telemetry_round_trip [of "replicate 25 0" sample_fields _ zero_stack,
      OF _ _ _ _ _ _ _ _ _ _ _ refl]
  ultimately show ?thesis
    by (simp add: sample_fields_def)
qed


section \<open>The charge percentage\<close>

text \<open>
  Claim C2 asks that the charge percentage is never computed by a division by zero: a
  zero maximum capacity is to be an explicit error case.  Line 286 divides
  \<^verbatim>\<open>100 * battery_capacity\<close> by \<^verbatim>\<open>battery_max_capacity\<close> without looking at the divisor.  A
  device that is selected and read without any I/O error, and whose block has the
  maximum capacity 0, takes the poll into that division.
\<close>

theorem charge_division_by_zero:
  "upsdrv_updateinfo zero_stack [Resp 1 [], Resp 25 flat_battery_block] idle_driver = Inl DivisionByZero"
  by (simp add: poll_simps idle_driver_def zero_stack_def flat_battery_block_def)

text \<open>With a non-zero divisor the quotient is the floor of \<open>100 * capacity / max_capacity\<close>.\<close>

lemma charge_published:
  assumes "decode_publish buf s = Inr s'"
  shows "rd16 buf BATTERY_MAX_CAPACITY \<noteq> 0 \<and>
         info s' ''battery.charge'' =
           Some (fmt_d (100 * rd16 buf BATTERY_CAPACITY div rd16 buf BATTERY_MAX_CAPACITY))"
proof -
  let ?t = "decode_telemetry buf"
  obtain s1 where p: "publish_telemetry ?t s = Inr s1"
    and s': "s' = dstate_dataok (status_step (battery_state ?t) (latch_step (button_state ?t) s1))"
    using assms by (rule decode_publish_Inr)
  have cap: "battery_capacity ?t = rd16 buf BATTERY_CAPACITY"
    "battery_max_capacity ?t = rd16 buf BATTERY_MAX_CAPACITY"
    by (simp_all add: decode_telemetry_def Let_def)
  have nz: "rd16 buf BATTERY_MAX_CAPACITY \<noteq> 0"
    using publish_telemetry_Inr(1) [OF p] cap by simp
  have pos: "0 \<le> rd16 buf BATTERY_CAPACITY" "0 < rd16 buf BATTERY_MAX_CAPACITY"
    using rd16_range [of buf BATTERY_CAPACITY] rd16_range [of buf BATTERY_MAX_CAPACITY] nz
    by simp_all
  have "info s' ''battery.charge'' = info s1 ''battery.charge''"
    by (simp add: s')
  also have "\<dots> = Some (fmt_d (100 * rd16 buf BATTERY_CAPACITY div rd16 buf BATTERY_MAX_CAPACITY))"
    using pos by (simp add: publish_telemetry_Inr(2) [OF p] cap sgn_if)
  finally show ?thesis
    using nz by simp
qed


section \<open>The status string\<close>

text \<open>
  Claim C6.  The status step (lines 311 to 344) is defined for every code \<open>c\<close>.  The tags
  it commits are those of the spec's table, which has \<open>OL\<close> for 0 and 4, \<open>OL\<close> and
  \<open>CHRG\<close> for 1 to 3, \<open>OB\<close> for 5, \<open>OB\<close> and \<open>LB\<close> for 6 and 7 and nothing for any other
  code, followed by \<open>FSD\<close> when the latch is set.  A code from 0 to 7 logs nothing, any
  other code logs the unknown state.  \<open>OL\<close> and \<open>OB\<close> never appear together.  A poll that
  runs to its end has committed exactly that for its battery-state byte.
\<close>

theorem battery_state_status:
  "status_tags (status_buf (status_step c s)) =
     spec_table_tags c @ (if fsd_latch s \<noteq> 0 then [''FSD''] else []) \<and>
   syslog (status_step c s) =
     (if 0 \<le> c \<and> c \<le> 7 then syslog s
      else syslog s @ [''upsdrv_updateinfo: unknown battery state 0x'' @ fmt_02x c]) \<and>
   \<not> (''OL'' \<in> set (status_tags (status_buf (status_step c s))) \<and>
      ''OB'' \<in> set (status_tags (status_buf (status_step c s)))) \<and>
   (decode_publish buf s = Inr s' \<longrightarrow>
      info s' ''ups.status'' = Some (status_buf s') \<and>
      status_tags (status_buf s') =
        spec_table_tags (uint (buf BATTERY_STATE)) @ (if fsd_latch s' \<noteq> 0 then [''FSD''] else []))"
proof -
  have tags: "status_tags (status_buf (status_step c s)) =
      spec_table_tags c @ (if fsd_latch s \<noteq> 0 then [''FSD''] else [])" for c s
    by (simp add: status_step_result spec_table_tags_def status_tags_def)
  have "0 \<le> c \<and> c \<le> 7 \<longleftrightarrow> c = 0 \<or> c = 1 \<or> c = 2 \<or> c = 3 \<or> c = 4 \<or> c = 5 \<or> c = 6 \<or> c = 7"
    by auto
  then have log: "syslog (status_step c s) =
     (if 0 \<le> c \<and> c \<le> 7 then syslog s
      else syslog s @ [''upsdrv_updateinfo: unknown battery state 0x'' @ fmt_02x c])"
    by (simp only: status_step_syslog)
  have excl: "\<not> (''OL'' \<in> set (status_tags (status_buf (status_step c s))) \<and>
      ''OB'' \<in> set (status_tags (status_buf (status_step c s))))"
    by (simp add: tags spec_table_tags_def)
  have poll: "info s' ''ups.status'' = Some (status_buf s') \<and>
      status_tags (status_buf s') =
        spec_table_tags (uint (buf BATTERY_STATE)) @ (if fsd_latch s' \<noteq> 0 then [''FSD''] else [])"
    if r: "decode_publish buf s = Inr s'"
  proof -
    obtain s2 where "fsd_latch s2 = fsd_latch s'"
      and "status_buf s' = status_buf (status_step (uint (buf BATTERY_STATE)) s2)"
      using r refl by (rule decode_publish_status)
    then show ?thesis
      using decode_publish_fields(5) [OF r] by (simp add: tags)
  qed
  from tags log excl poll show ?thesis
    by blast
qed

text \<open>
  State 2 (charging) gives \<open>OL CHRG\<close>, and with the latch set \<open>OL CHRG FSD\<close>; state 8
  gives an empty status and a log line.
\<close>

theorem battery_state_status_witness:
  "status_buf (projr (decode_publish (store sample_block READ_OFFSET zero_stack) idle_driver)) = ''OL CHRG'' \<and>
   status_tags (status_buf (projr (decode_publish (store sample_block READ_OFFSET zero_stack) idle_driver)))
     = [''OL'', ''CHRG''] \<and>
   status_tags (status_buf (status_step 2 latched_driver)) = [''OL'', ''CHRG'', ''FSD''] \<and>
   status_tags (status_buf (status_step 8 idle_driver)) = [] \<and>
   syslog (status_step 8 idle_driver) = [''upsdrv_updateinfo: unknown battery state 0x08'']"
proof -
  let ?buf = "store sample_block READ_OFFSET zero_stack"
  let ?s' = "projr (decode_publish ?buf idle_driver)"
  have c: "uint (?buf BATTERY_STATE) = 2"
    by (simp add: store_def sample_block_def)
  have l: "fsd_latch ?s' = 0"
    using decode_publish_latch [OF sample_poll refl]
    by (simp add: store_def sample_block_def idle_driver_def)
  have "status_tags (status_buf ?s') = [''OL'', ''CHRG'']"
    using battery_state_status [of 0 idle_driver ?buf ?s'] sample_poll c l
    by (simp add: spec_table_tags_def)
  moreover have "status_buf ?s' = ''OL CHRG''"
  proof -
    obtain s2 where "fsd_latch s2 = fsd_latch ?s'"
      and "status_buf ?s' = status_buf (status_step (uint (?buf BATTERY_STATE)) s2)"
      using sample_poll refl by (rule decode_publish_status)
    then show ?thesis
      using c l by (simp add: status_step_result)
  qed
  moreover have "status_tags (status_buf (status_step 2 latched_driver)) = [''OL'', ''CHRG'', ''FSD'']"
    using battery_state_status [of 2 latched_driver]
    by (simp add: spec_table_tags_def latched_driver_def idle_driver_def)
  moreover have "status_tags (status_buf (status_step 8 idle_driver)) = [] \<and>
      syslog (status_step 8 idle_driver) = [''upsdrv_updateinfo: unknown battery state 0x08'']"
    using battery_state_status [of 8 idle_driver]
    by (simp add: spec_table_tags_def idle_driver_def fmt_02x_def to_unsigned_def zero_pad_def
        hex.simps digit_def)
  ultimately show ?thesis
    by simp
qed


section \<open>The forced-shutdown latch\<close>

lemma smartups_read_ID_latch:
  assumes "smartups_read_ID fatal w s = Inr (w', s')"
  shows "(fsd_latch s' = fsd_latch s \<and> device_initialized s' = device_initialized s) \<or>
         (fsd_latch s' = 0 \<and> device_initialized s' = 1)"
  using assms unfolding smartups_read_ID_def Let_def
  by (auto split: sum.splits prod.splits if_splits)

lemma smartups_read_ID_fatal:
  assumes "smartups_read_ID True w s = Inr (w', s')"
  shows "fsd_latch s' = 0 \<and> device_initialized s' = 1"
  using assms unfolding smartups_read_ID_def Let_def
  by (auto split: sum.splits prod.splits if_splits)

lemma lazy_probe_latch:
  assumes "lazy_probe w s = Inr (w1, s1)"
  shows "fsd_latch s1 = fsd_latch s \<or>
         (device_initialized s = 0 \<and> smartups_read_ID False w s = Inr (w1, s1) \<and>
          device_initialized s1 = 1)"
  using assms smartups_read_ID_latch [of False w s w1 s1]
  by (auto simp: lazy_probe_def split: if_splits)

text \<open>
  Claim C1, as the code has it.  The latch is set from the button-state byte
  (\<^verbatim>\<open>buffer[BUTTON_STATE]\<close>, line 297), not from the battery-state byte.  Take a poll
  that reads its block and returns, and let \<open>b\<close> be its button-state code.  If \<open>b\<close> is 9
  or 10 the poll ends with the latch set, whatever the latch was before; so each of a
  row of polls with button-state 9 ends with the latch set.  More precisely the latch at
  the end is given by \<open>b\<close> and the latch after the identity probe alone: clear for
  1, 2 and 3, set for 9 and 10, unchanged for every other \<open>b\<close>; and the probe leaves
  the latch as it was or clears it.  The battery-state byte has no part in it: a poll that
  starts with the latch clear and whose \<open>b\<close> is neither 9 nor 10 ends with the latch
  clear, whatever its battery-state code is.
\<close>

theorem button_state_sets_latch:
  assumes "lazy_probe w s = Inr (w1, s1)"
    and "read_block stack w1 s1 = (w2, s2, Some buf)"
    and "upsdrv_updateinfo stack w s = Inr (w', s')"
    and "b = uint (buf BUTTON_STATE)"
  shows "(b = 9 \<or> b = 10 \<longrightarrow> fsd_latch s' = 1) \<and>
         fsd_latch s' =
           (if b = 1 \<or> b = 2 \<or> b = 3 then 0 else if b = 9 \<or> b = 10 then 1 else fsd_latch s1) \<and>
         (fsd_latch s1 = fsd_latch s \<or> fsd_latch s1 = 0) \<and>
         (fsd_latch s = 0 \<and> b \<noteq> 9 \<and> b \<noteq> 10 \<longrightarrow> fsd_latch s' = 0)"
proof -
  have s2: "s2 = s1"
    using read_block_Some [OF assms(2)] .
  have "decode_publish buf s1 = Inr s'"
    using assms(3) by (simp add: upsdrv_updateinfo_def assms(1,2) s2 split: sum.splits)
  from decode_publish_latch [OF this assms(4)]
  have end_latch: "fsd_latch s' =
      (if b = 1 \<or> b = 2 \<or> b = 3 then 0 else if b = 9 \<or> b = 10 then 1 else fsd_latch s1)" .
  have probe: "fsd_latch s1 = fsd_latch s \<or> fsd_latch s1 = 0"
    using lazy_probe_latch [OF assms(1)] smartups_read_ID_latch [of False w s w1 s1] by auto
  from end_latch probe show ?thesis
    by auto
qed

text \<open>
  A poll with button-state 9 sets the latch, and a second one finds and leaves it set; a
  poll with battery-state 9 and button-state 0 leaves a clear latch clear.
\<close>

theorem button_state_sets_latch_witness:
  "fsd_latch idle_driver = 0 \<and>
   fsd_latch (snd (projr (upsdrv_updateinfo zero_stack [Resp 1 [], Resp 25 button_9_block] idle_driver))) = 1 \<and>
   fsd_latch (snd (projr (upsdrv_updateinfo zero_stack [Resp 1 [], Resp 25 button_9_block]
     (snd (projr (upsdrv_updateinfo zero_stack [Resp 1 [], Resp 25 button_9_block] idle_driver)))))) = 1 \<and>
   uint (store state_9_block READ_OFFSET (zero_stack(0 := word_of_nat READ_OFFSET)) BATTERY_STATE) = 9 \<and>
   fsd_latch (snd (projr (upsdrv_updateinfo zero_stack [Resp 1 [], Resp 25 state_9_block] idle_driver))) = 0"
proof -
  let ?w = "[Resp 1 [], Resp 25 button_9_block]"
  let ?buf = "store button_9_block READ_OFFSET (zero_stack(0 := word_of_nat READ_OFFSET))"
  let ?r1 = "upsdrv_updateinfo zero_stack ?w idle_driver"
  let ?s1 = "snd (projr ?r1)"
  let ?r2 = "upsdrv_updateinfo zero_stack ?w ?s1"
  let ?w9 = "[Resp 1 [], Resp 25 state_9_block]"
  let ?buf9 = "store state_9_block READ_OFFSET (zero_stack(0 := word_of_nat READ_OFFSET))"
  let ?r9 = "upsdrv_updateinfo zero_stack ?w9 idle_driver"
  have l0: "fsd_latch idle_driver = 0"
    by (simp add: idle_driver_def)
  have b: "uint (?buf BUTTON_STATE) = 9"
    by (simp add: store_def button_9_block_def)
  have m: "rd16 ?buf BATTERY_MAX_CAPACITY \<noteq> 0"
    by (simp add: rd16_def store_def button_9_block_def)
  have rb: "read_block zero_stack ?w s = ([], s, Some ?buf)" for s
    by (simp add: read_block_def sys_write_def sys_read_def Let_def button_9_block_def)
  have p1: "lazy_probe ?w idle_driver = Inr (?w, idle_driver)"
    by (rule lazy_probe_idle)
  have "\<not> isl ?r1"
    by (rule upsdrv_updateinfo_returns [OF p1 rb m])
  then have r1: "?r1 = Inr (fst (projr ?r1), ?s1)"
    by (rule Inr_projr)
  have l1: "fsd_latch ?s1 = 1"
    using button_state_sets_latch [OF p1 rb r1 refl] b by simp
  have "decode_publish ?buf idle_driver = Inr ?s1"
    using r1 by (simp add: upsdrv_updateinfo_def p1 rb split: sum.splits)
  then have "device_initialized ?s1 \<noteq> 0"
    using decode_publish_fields(1) [of ?buf idle_driver ?s1] by (simp add: idle_driver_def)
  then have p2: "lazy_probe ?w ?s1 = Inr (?w, ?s1)"
    by (simp add: lazy_probe_def)
  have "\<not> isl ?r2"
    by (rule upsdrv_updateinfo_returns [OF p2 rb m])
  then have r2: "?r2 = Inr (fst (projr ?r2), snd (projr ?r2))"
    by (rule Inr_projr)
  have l2: "fsd_latch (snd (projr ?r2)) = 1"
    using button_state_sets_latch [OF p2 rb r2 refl] b by simp
  have c9: "uint (?buf9 BATTERY_STATE) = 9" and b9: "uint (?buf9 BUTTON_STATE) = 0"
    by (simp_all add: store_def state_9_block_def)
  have m9: "rd16 ?buf9 BATTERY_MAX_CAPACITY \<noteq> 0"
    by (simp add: rd16_def store_def state_9_block_def)
  have rb9: "read_block zero_stack ?w9 idle_driver = ([], idle_driver, Some ?buf9)"
    by (simp add: read_block_def sys_write_def sys_read_def Let_def state_9_block_def)
  have p9: "lazy_probe ?w9 idle_driver = Inr (?w9, idle_driver)"
    by (rule lazy_probe_idle)
  have "\<not> isl ?r9"
    by (rule upsdrv_updateinfo_returns [OF p9 rb9 m9])
  then have r9: "?r9 = Inr (fst (projr ?r9), snd (projr ?r9))"
    by (rule Inr_projr)
  have l9: "fsd_latch (snd (projr ?r9)) = 0"
    using button_state_sets_latch [OF p9 rb9 r9 refl] b9 l0 by simp
  from l0 l1 l2 c9 l9 show ?thesis
    by simp
qed

text \<open>
  Claim C1, as it is stated, fails: a poll whose battery-state code is 9, with
  button-state 0 and the latch clear, returns with the latch still clear and no \<open>FSD\<close>
  in the status.
\<close>

theorem battery_state_9_latch_counterexample:
  "battery_state (decode_telemetry (store state_9_block READ_OFFSET zero_stack)) = 9 \<and>
   fsd_latch idle_driver = 0 \<and>
   \<not> isl (upsdrv_updateinfo zero_stack [Resp 1 [], Resp 25 state_9_block] idle_driver) \<and>
   fsd_latch (snd (projr (upsdrv_updateinfo zero_stack [Resp 1 [], Resp 25 state_9_block] idle_driver))) = 0 \<and>
   status_buf (snd (projr (upsdrv_updateinfo zero_stack [Resp 1 [], Resp 25 state_9_block] idle_driver))) = []"
proof -
  let ?w = "[Resp 1 [], Resp 25 state_9_block]"
  let ?buf = "store state_9_block READ_OFFSET (zero_stack(0 := word_of_nat READ_OFFSET))"
  let ?r = "upsdrv_updateinfo zero_stack ?w idle_driver"
  have rb: "read_block zero_stack ?w idle_driver = ([], idle_driver, Some ?buf)"
    by (simp add: read_block_def sys_write_def sys_read_def Let_def state_9_block_def)
  have m: "rd16 ?buf BATTERY_MAX_CAPACITY \<noteq> 0"
    by (simp add: rd16_def store_def state_9_block_def)
  have c: "battery_state (decode_telemetry (store state_9_block READ_OFFSET zero_stack)) = 9"
    by (simp add: decode_telemetry_def Let_def store_def state_9_block_def)
  have ret: "\<not> isl ?r"
    by (rule upsdrv_updateinfo_returns [OF lazy_probe_idle rb m])
  then have "?r = Inr (fst (projr ?r), snd (projr ?r))"
    by (rule Inr_projr)
  then have d: "decode_publish ?buf idle_driver = Inr (snd (projr ?r))"
    by (simp add: upsdrv_updateinfo_def lazy_probe_idle rb split: sum.splits)
  have l: "fsd_latch (snd (projr ?r)) = 0"
    using decode_publish_latch [OF d refl]
    by (simp add: store_def state_9_block_def idle_driver_def)
  obtain s2 where "fsd_latch s2 = fsd_latch (snd (projr ?r))"
    and "status_buf (snd (projr ?r)) = status_buf (status_step (uint (?buf BATTERY_STATE)) s2)"
    using d refl by (rule decode_publish_status)
  then have "status_buf (snd (projr ?r)) = []"
    using l by (simp add: status_step_result store_def state_9_block_def)
  with c ret l show ?thesis
    by (simp add: idle_driver_def)
qed


lemma upsdrv_shutdown_latch: "upsdrv_shutdown w s = Inr (w', s') \<Longrightarrow> fsd_latch s' = fsd_latch s"
  by (auto simp: upsdrv_shutdown_def split: sum.splits prod.splits if_splits)

lemma upsdrv_initups_latch:
  "upsdrv_initups device_path w s = Inr (w', s') \<Longrightarrow> fsd_latch s' = fsd_latch s"
  by (auto simp: upsdrv_initups_def split: prod.splits if_splits)

lemma upsdrv_cleanup_latch: "upsdrv_cleanup w s = (w', s') \<Longrightarrow> fsd_latch s' = fsd_latch s"
  by (auto simp: upsdrv_cleanup_def split: prod.splits if_splits)

text \<open>
  Claim C4, as the code has it.  An identity probe that runs to its end resets the latch
  together with setting \<^verbatim>\<open>device_initialized\<close> (lines 156 and 157).  So when an operation
  of the driver returns and has taken the latch from set to clear, it is either
  \<^verbatim>\<open>upsdrv_initinfo\<close>, or a poll that has begun with a complete identity probe (which it
  runs when an earlier I/O error has reset \<^verbatim>\<open>device_initialized\<close>), or a poll that has
  read its block and found the button-state code 1, 2 or 3.  Nothing else clears the
  latch: not a poll with an I/O error, not a probe that stops early, not the shutdown
  command, not opening or closing the device.
\<close>

theorem latch_cleared_only_by:
  assumes "run ev w s = Inr (w', s')" and "fsd_latch s \<noteq> 0" and "fsd_latch s' = 0"
  shows "(ev = InitInfo \<and> device_initialized s' = 1) \<or>
         (\<exists>stack w1 s1. ev = UpdateInfo stack \<and> lazy_probe w s = Inr (w1, s1) \<and>
            ((device_initialized s = 0 \<and> smartups_read_ID False w s = Inr (w1, s1) \<and>
              device_initialized s1 = 1) \<or>
             (\<exists>buf. read_block stack w1 s1 = (w', s1, Some buf) \<and>
                (uint (buf BUTTON_STATE) = 1 \<or> uint (buf BUTTON_STATE) = 2 \<or>
                 uint (buf BUTTON_STATE) = 3))))"
proof (cases ev)
  case (InitUps device_path)
  then show ?thesis
    using assms upsdrv_initups_latch [of device_path w s w' s'] by simp
next
  case InitInfo
  then show ?thesis
    using assms smartups_read_ID_fatal [of w s w' s'] by (simp add: upsdrv_initinfo_def)
next
  case (UpdateInfo stack)
  then have r: "upsdrv_updateinfo stack w s = Inr (w', s')"
    using assms(1) by simp
  from r show ?thesis
  proof (cases rule: upsdrv_updateinfo_Inr)
    case (stale w1 s1)
    have "fsd_latch s' = fsd_latch s1"
      using read_block_None [OF stale(2)] by simp
    then show ?thesis
      using lazy_probe_latch [OF stale(1)] assms(2,3) UpdateInfo stale(1) by auto
  next
    case (ok w1 s1 buf)
    show ?thesis
      using decode_publish_latch [OF ok(3) refl] lazy_probe_latch [OF ok(1)] assms(2,3)
        UpdateInfo ok(1,2)
      by (auto split: if_splits)
  qed
next
  case Shutdown
  then show ?thesis
    using assms upsdrv_shutdown_latch [of w s w' s'] by simp
next
  case Cleanup
  then show ?thesis
    using assms upsdrv_cleanup_latch [of w s w' s'] by auto
next
  case Help
  then show ?thesis
    using assms by (auto simp: upsdrv_help_def)
next
  case MakeVarTable
  then show ?thesis
    using assms by (auto simp: upsdrv_makevartable_def)
qed


text \<open>A press of the button (code 2) clears the latch of a driver that knows its device.\<close>

theorem latch_cleared_only_by_witness:
  "fsd_latch latched_driver = 1 \<and>
   fsd_latch (snd (projr (run (UpdateInfo zero_stack) [Resp 1 [], Resp 25 button_2_block] latched_driver))) = 0 \<and>
   (\<exists>buf. read_block zero_stack [Resp 1 [], Resp 25 button_2_block] latched_driver
             = ([], latched_driver, Some buf) \<and> uint (buf BUTTON_STATE) = 2)"
proof -
  let ?w = "[Resp 1 [], Resp 25 button_2_block]"
  let ?buf = "store button_2_block READ_OFFSET (zero_stack(0 := word_of_nat READ_OFFSET))"
  let ?r = "run (UpdateInfo zero_stack) ?w latched_driver"
  have l0: "fsd_latch latched_driver = 1" and d0: "device_initialized latched_driver = 1"
    by (simp_all add: latched_driver_def idle_driver_def)
  have p: "lazy_probe ?w latched_driver = Inr (?w, latched_driver)"
    by (simp add: lazy_probe_def d0)
  have rb: "read_block zero_stack ?w latched_driver = ([], latched_driver, Some ?buf)"
    by (simp add: read_block_def sys_write_def sys_read_def Let_def button_2_block_def)
  have m: "rd16 ?buf BATTERY_MAX_CAPACITY \<noteq> 0"
    by (simp add: rd16_def store_def button_2_block_def)
  have b: "uint (?buf BUTTON_STATE) = 2"
    by (simp add: store_def button_2_block_def)
  have "\<not> isl ?r"
    using upsdrv_updateinfo_returns [OF p rb m] by simp
  then have r: "?r = Inr (fst (projr ?r), snd (projr ?r))"
    by (rule Inr_projr)
  then have "decode_publish ?buf latched_driver = Inr (snd (projr ?r))"
    by (simp add: upsdrv_updateinfo_def p rb split: sum.splits)
  from decode_publish_latch [OF this refl] b have l: "fsd_latch (snd (projr ?r)) = 0"
    by simp
  from latch_cleared_only_by [OF r _ l]
  have "\<exists>buf. read_block zero_stack ?w latched_driver = (fst (projr ?r), latched_driver, Some buf) \<and>
          (uint (buf BUTTON_STATE) = 1 \<or> uint (buf BUTTON_STATE) = 2 \<or> uint (buf BUTTON_STATE) = 3)"
    by (auto simp: l0 d0 p)
  then have "\<exists>buf. read_block zero_stack ?w latched_driver = ([], latched_driver, Some buf) \<and>
          uint (buf BUTTON_STATE) = 2"
    using b by (auto simp: rb)
  with l0 l show ?thesis
    by simp
qed

text \<open>
  Claim C4, as it is stated, fails.  The latch is set and an I/O error has reset
  \<^verbatim>\<open>device_initialized\<close>.  The next poll finds the device again: its probe runs to the
  end, the block it reads has button-state 0, and the poll returns with the latch clear.
\<close>

theorem reprobe_clears_latch_counterexample:
  "fsd_latch lost_driver = 1 \<and>
   button_state (decode_telemetry (store sample_block READ_OFFSET zero_stack)) = 0 \<and>
   \<not> isl (run (UpdateInfo zero_stack) reprobe_world lost_driver) \<and>
   fsd_latch (snd (projr (run (UpdateInfo zero_stack) reprobe_world lost_driver))) = 0"
proof -
  let ?w = "[Resp 1 [], Resp 25 sample_block]"
  let ?buf = "store sample_block READ_OFFSET (zero_stack(0 := word_of_nat READ_OFFSET))"
  let ?p = "smartups_read_ID False reprobe_world lost_driver"
  let ?r = "upsdrv_updateinfo zero_stack reprobe_world lost_driver"
  have l0: "fsd_latch lost_driver = 1" and d0: "device_initialized lost_driver = 0"
    by (simp_all add: lost_driver_def idle_driver_def)
  have "\<not> isl ?p" and w1: "fst (projr ?p) = ?w" and l1: "fsd_latch (snd (projr ?p)) = 0"
    by (simp_all add: probe_simps reprobe_world_def openelec_world_def)
  then have p: "lazy_probe reprobe_world lost_driver = Inr (?w, snd (projr ?p))"
    using Inr_projr [of ?p] by (simp add: lazy_probe_def d0)
  have rb: "read_block zero_stack ?w s = ([], s, Some ?buf)" for s
    by (simp add: read_block_def sys_write_def sys_read_def Let_def sample_block_def)
  have m: "rd16 ?buf BATTERY_MAX_CAPACITY \<noteq> 0"
    by (simp add: rd16_def store_def sample_block_def)
  have b: "uint (?buf BUTTON_STATE) = 0"
    by (simp add: store_def sample_block_def)
  have ret: "\<not> isl ?r"
    by (rule upsdrv_updateinfo_returns [OF p rb m])
  then have "?r = Inr (fst (projr ?r), snd (projr ?r))"
    by (rule Inr_projr)
  then have "decode_publish ?buf (snd (projr ?p)) = Inr (snd (projr ?r))"
    by (simp add: upsdrv_updateinfo_def p rb split: sum.splits)
  from decode_publish_latch [OF this refl] b l1 have l: "fsd_latch (snd (projr ?r)) = 0"
    by simp
  have "button_state (decode_telemetry (store sample_block READ_OFFSET zero_stack)) = 0"
    by (simp add: decode_telemetry_def Let_def store_def sample_block_def)
  with l0 ret l show ?thesis
    by simp
qed


section \<open>I/O errors and short reads in a poll\<close>

text \<open>
  Claim C3.  Once the poll is past its identity probe, if the offset-select write
  returns a negative value, or the write succeeds and the block read returns a negative
  value, then the poll returns to its caller (the process goes on) with the data marked
  stale and \<^verbatim>\<open>device_initialized\<close> reset to 0; the next poll, in whatever environment,
  therefore starts with the identity probe.
\<close>

theorem poll_io_error:
  assumes "lazy_probe w s = Inr (w1, s1)"
    and "sys_write w1 = (ret, w2)"
    and "sys_read READ_LEN w2 = (ret', bs, w3)"
    and "ret < 0 \<or> ret' < 0"
  shows "\<exists>w' s'. upsdrv_updateinfo stack w s = Inr (w', s') \<and>
           data_state s' = Stale \<and> device_initialized s' = 0 \<and>
           lazy_probe wn s' = smartups_read_ID False wn s'"
proof -
  obtain w' s' where rb: "read_block stack w1 s1 = (w', s', None)"
    using assms(2-4) by (cases "ret < 0") (auto simp: read_block_def Let_def)
  have "upsdrv_updateinfo stack w s = Inr (w', s')"
    by (simp add: upsdrv_updateinfo_def assms(1) rb)
  moreover have "data_state s' = Stale" "device_initialized s' = 0"
    using read_block_None [OF rb] by simp_all
  moreover from this have "lazy_probe wn s' = smartups_read_ID False wn s'"
    by (simp add: lazy_probe_def)
  ultimately show ?thesis
    by blast
qed

text \<open>An unanswered offset write, and a failed block read.\<close>

theorem poll_io_error_witness:
  "data_state (snd (projr (upsdrv_updateinfo zero_stack [Resp (- 1) []] idle_driver))) = Stale \<and>
   device_initialized (snd (projr (upsdrv_updateinfo zero_stack [Resp (- 1) []] idle_driver))) = 0 \<and>
   data_state (snd (projr (upsdrv_updateinfo zero_stack [Resp 1 [], Resp (- 1) []] idle_driver))) = Stale \<and>
   device_initialized (snd (projr (upsdrv_updateinfo zero_stack [Resp 1 [], Resp (- 1) []] idle_driver))) = 0"
proof -
  have "sys_write [Resp (- 1) []] = (- 1, [])" "sys_read READ_LEN [] = (- 1, [], [])"
    by (simp_all add: sys_write_def sys_read_def)
  from poll_io_error [OF lazy_probe_idle this, of zero_stack "[]"]
  have a: "data_state (snd (projr (upsdrv_updateinfo zero_stack [Resp (- 1) []] idle_driver))) = Stale \<and>
   device_initialized (snd (projr (upsdrv_updateinfo zero_stack [Resp (- 1) []] idle_driver))) = 0"
    by auto
  have "sys_write [Resp 1 [], Resp (- 1) []] = (1, [Resp (- 1) []])"
    "sys_read READ_LEN [Resp (- 1) []] = (- 1, [], [])"
    by (simp_all add: sys_write_def sys_read_def)
  from poll_io_error [OF lazy_probe_idle this, of zero_stack "[]"]
  have b: "data_state (snd (projr (upsdrv_updateinfo zero_stack [Resp 1 [], Resp (- 1) []] idle_driver))) = Stale \<and>
   device_initialized (snd (projr (upsdrv_updateinfo zero_stack [Resp 1 [], Resp (- 1) []] idle_driver))) = 0"
    by auto
  from a b show ?thesis
    by simp
qed


text \<open>
  A short read.  The poll looks at the sign of the byte count and at nothing else: the
  bytes received go into the buffer, the rest of the buffer keeps what the stack held,
  and the poll decodes that buffer.  Up to the environment left over, a full-length read
  that delivers the same 25 bytes gives the same buffer and the same state, hence the
  same poll.  With a non-zero maximum capacity in the buffer the poll ends with the data
  marked OK.
\<close>

lemma store_map_self:
  "store (map buf [off ..< off + len]) off base i =
     (if off \<le> i \<and> i < off + len then buf i else base i)"
  by (auto simp: store_def)

lemma sys_read_full:
  "length bs = len \<Longrightarrow> sys_read len (Resp (int len) bs # w) = (int len, bs, w)"
  by (simp add: sys_read_def)

lemma read_block_ok:
  assumes "sys_write w = (ret, w1)" and "\<not> ret < 0"
    and "sys_read READ_LEN w1 = (n, bs, w2)" and "\<not> n < 0"
  shows "read_block stack w s
           = (w2, s, Some (store bs READ_OFFSET (stack(0 := word_of_nat READ_OFFSET))))"
  using assms by (simp add: read_block_def Let_def)

lemma short_read_not_checked:
  assumes "lazy_probe w s = Inr (w1, s1)"
    and "sys_write w1 = (ret, w2)" and "\<not> ret < 0"
    and "sys_read READ_LEN w2 = (n, bs, w3)" and "0 \<le> n" and "n < int READ_LEN"
    and "buf = store bs READ_OFFSET (stack(0 := word_of_nat READ_OFFSET))"
  shows "read_block stack w1 s1 = (w3, s1, Some buf)"
    and "READ_OFFSET + nat n \<le> i \<Longrightarrow> buf i = stack i"
    and "read_block stack
           (Resp 1 [] # Resp (int READ_LEN) (map buf [READ_OFFSET ..< READ_OFFSET + READ_LEN]) # w3) s1
           = (w3, s1, Some buf)"
    and "upsdrv_updateinfo stack w s =
           (case decode_publish buf s1 of Inl e \<Rightarrow> Inl e | Inr s' \<Rightarrow> Inr (w3, s'))"
    and "rd16 buf BATTERY_MAX_CAPACITY \<noteq> 0 \<Longrightarrow>
           \<exists>s'. upsdrv_updateinfo stack w s = Inr (w3, s') \<and> data_state s' = DataOk"
proof -
  let ?full = "map buf [READ_OFFSET ..< READ_OFFSET + READ_LEN]"
  let ?stack = "stack(0 := word_of_nat READ_OFFSET)"
  have len: "n = int (length bs)"
    using sys_read_length [OF assms(4)] assms(5) by simp
  show rb: "read_block stack w1 s1 = (w3, s1, Some buf)"
    using read_block_ok [OF assms(2,3,4)] assms(5) by (simp add: assms(7))
  show "buf i = stack i" if "READ_OFFSET + nat n \<le> i"
    using that len by (simp add: assms(7) store_def)
  have "store ?full READ_OFFSET ?stack i = buf i" for i
    unfolding store_map_self using len assms(6) by (simp add: assms(7) store_def)
  then have same: "store ?full READ_OFFSET ?stack = buf"
    by (rule ext)
  have "length ?full = READ_LEN"
    by (simp only: length_map length_upt add_diff_cancel_left')
  then have rd: "sys_read READ_LEN (Resp (int READ_LEN) ?full # w3) = (int READ_LEN, ?full, w3)"
    by (rule sys_read_full)
  have wr: "sys_write (Resp 1 [] # Resp (int READ_LEN) ?full # w3)
      = (1, Resp (int READ_LEN) ?full # w3)"
    by (simp only: sys_write_def sys_call.simps prod.case)
  have nn: "\<not> (1::int) < 0" "\<not> int READ_LEN < 0"
    by simp_all
  have "read_block stack (Resp 1 [] # Resp (int READ_LEN) ?full # w3) s1
      = (w3, s1, Some (store ?full READ_OFFSET ?stack))"
    by (rule read_block_ok [OF wr nn(1) rd nn(2)])
  then show "read_block stack (Resp 1 [] # Resp (int READ_LEN) ?full # w3) s1 = (w3, s1, Some buf)"
    by (simp only: same)
  show u: "upsdrv_updateinfo stack w s =
           (case decode_publish buf s1 of Inl e \<Rightarrow> Inl e | Inr s' \<Rightarrow> Inr (w3, s'))"
    by (simp add: upsdrv_updateinfo_def assms(1) rb)
  show "\<exists>s'. upsdrv_updateinfo stack w s = Inr (w3, s') \<and> data_state s' = DataOk"
    if nz: "rd16 buf BATTERY_MAX_CAPACITY \<noteq> 0"
  proof -
    obtain s' where d: "decode_publish buf s1 = Inr s'"
      using decode_publish_total [OF nz] by blast
    then show ?thesis
      using decode_publish_fields(2) [OF d] by (simp add: u)
  qed
qed

text \<open>
  Claim C9 says that every poll with a short read ends by marking the data OK.  The
  charge division of line 286 stands in the way (see claim C2): the device answers the
  offset write and delivers 20 of the 25 bytes, the maximum capacity is taken from the
  two bytes of the buffer that were not received, which the stack left zero, and the
  poll divides by it.
\<close>

theorem short_read_division_by_zero:
  "sys_read READ_LEN [Resp 20 short_block] = (20, short_block, []) \<and>
   upsdrv_updateinfo zero_stack [Resp 1 [], Resp 20 short_block] idle_driver = Inl DivisionByZero"
proof -
  let ?buf = "store short_block READ_OFFSET (zero_stack(0 := word_of_nat READ_OFFSET))"
  have rd: "sys_read READ_LEN [Resp 20 short_block] = (20, short_block, [])"
    by (simp add: sys_read_def short_block_def)
  have wr: "sys_write [Resp 1 [], Resp 20 short_block] = (1, [Resp 20 short_block])"
    by (simp add: sys_write_def)
  have "rd16 ?buf BATTERY_MAX_CAPACITY = 0"
    by (simp add: rd16_def store_def short_block_def zero_stack_def)
  then have "decode_publish ?buf idle_driver = Inl DivisionByZero"
    by (rule decode_publish_crash)
  then have "upsdrv_updateinfo zero_stack [Resp 1 [], Resp 20 short_block] idle_driver = Inl DivisionByZero"
    using short_read_not_checked(4) [OF lazy_probe_idle wr _ rd _ _ refl, of zero_stack]
    by simp
  with rd show ?thesis
    by simp
qed


section \<open>The identity probe\<close>

lemma cstring_terminated: "cstring (bs @ [0]) = cstring bs"
  by (induction bs) (simp_all add: cstring_def)

lemma byte_char_eq: "(char_of (unat (b::byte)) = c) = (unat b = of_char c)"
proof -
  have "take_bit 8 (unat b) = unat b"
    by (rule take_bit_nat_eq_self) (use unsigned_less [of b, where 'a = nat] in simp)
  then show ?thesis
    by (simp add: char_of_eq_iff)
qed

lemma byte_of_char: "char_of (unat (b::byte)) = c \<Longrightarrow> b = word_of_nat (of_char c)"
proof -
  assume "char_of (unat b) = c"
  then have "unat b = of_char c"
    by (simp add: byte_char_eq)
  then have "word_of_nat (unat b) = (word_of_nat (of_char c) :: byte)"
    by simp
  then show ?thesis
    by simp
qed

lemma openelec_bytes:
  assumes "length bs \<le> 8"
  shows "(cstring bs = ''Openelec'') = (bs = [79, 112, 101, 110, 101, 108, 101, 99])"
proof
  assume "bs = [79, 112, 101, 110, 101, 108, 101, 99]"
  then show "cstring bs = ''Openelec''"
    by (simp add: cstring_def char_of_def bit_0 bit_Suc)
next
  assume c: "cstring bs = ''Openelec''"
  have "length (cstring bs) = length ''Openelec''"
    by (simp only: c)
  then have "length (takeWhile (\<lambda>b. b \<noteq> 0) bs) = 8"
    by (simp add: cstring_def)
  with assms have "takeWhile (\<lambda>b. b \<noteq> 0) bs = bs"
    by (metis takeWhile_eq_take take_all)
  with c have m: "map (\<lambda>b. char_of (unat b)) bs = ''Openelec''"
    by (simp add: cstring_def)
  have "length (map (\<lambda>b. char_of (unat b)) bs) = length ''Openelec''"
    by (simp only: m)
  then have "length bs = 8"
    by simp
  then obtain b0 b1 b2 b3 b4 b5 b6 b7 where bs: "bs = [b0, b1, b2, b3, b4, b5, b6, b7]"
    by (auto simp: numeral_eq_Suc length_Suc_conv)
  have "char_of (unat b0) = CHR ''O''" "char_of (unat b1) = CHR ''p''"
    "char_of (unat b2) = CHR ''e''" "char_of (unat b3) = CHR ''n''"
    "char_of (unat b4) = CHR ''e''" "char_of (unat b5) = CHR ''l''"
    "char_of (unat b6) = CHR ''e''" "char_of (unat b7) = CHR ''c''"
    using m unfolding bs by simp_all
  then have "b0 = 79" "b1 = 112" "b2 = 101" "b3 = 110" "b4 = 101" "b5 = 108" "b6 = 101" "b7 = 99"
    by (auto dest!: byte_of_char)
  then show "bs = [79, 112, 101, 110, 101, 108, 101, 99]"
    by (simp add: bs)
qed

lemma smartups_read_ID_mfr:
  assumes "select_slave w = Inr w0"
    and "i2c_read_cstring VENDOR_ID_OFFSET 8 w0 = (ret, vendor, w1, l1)"
    and "\<not> ret < 0"
    and "smartups_read_ID fatal w s = Inr (w', s')"
  shows "info s' ''ups.mfr'' =
           Some (if cstring vendor = ''Openelec'' then ''OpenElectrons.com'' else cstring vendor)"
  using assms(4) unfolding smartups_read_ID_def assms(1) sum.case assms(2) prod.case Let_def
  using assms(3)
  by (auto split: prod.splits if_splits)

text \<open>
  Claim C8.  When the probe has selected the device and read the vendor string (the
  offset write and the 8-byte read both succeed, \<open>raw\<close> being the bytes read), a probe
  that returns has published \<^verbatim>\<open>ups.mfr\<close>: as \<open>OpenElectrons.com\<close> when \<open>raw\<close> is exactly
  the eight characters \<open>Openelec\<close>, and otherwise as \<open>raw\<close> itself, cut at its first null
  byte.
\<close>

theorem vendor_normalization:
  assumes "sys_ioctl w = (r0, w0)" and "\<not> r0 < 0"
    and "sys_write w0 = (r1, w1)" and "\<not> r1 < 0"
    and "sys_read 8 w1 = (n, raw, w2)" and "\<not> n < 0"
    and "smartups_read_ID fatal w s = Inr (w', s')"
  shows "info s' ''ups.mfr'' =
           Some (if raw = [79, 112, 101, 110, 101, 108, 101, 99] then ''OpenElectrons.com''
                 else map (\<lambda>b. char_of (unat b)) (takeWhile (\<lambda>b. b \<noteq> 0) raw))"
proof -
  have sel: "select_slave w = Inr w0"
    using assms(1,2) by (simp add: select_slave_def)
  obtain l1 where rd: "i2c_read_cstring VENDOR_ID_OFFSET 8 w0 = (0, raw @ [0], w2, l1)"
    using i2c_read_cstring_ok [OF assms(3-6)] by blast
  have len: "length raw \<le> 8"
    using sys_read_length [OF assms(5)] by simp
  have "info s' ''ups.mfr'' =
          Some (if cstring (raw @ [0]) = ''Openelec'' then ''OpenElectrons.com''
                else cstring (raw @ [0]))"
    by (rule smartups_read_ID_mfr [OF sel rd _ assms(7)]) simp
  then show ?thesis
    by (simp add: cstring_terminated openelec_bytes [OF len]) (simp add: cstring_def)
qed

lemma probe_openelec: "\<not> isl (smartups_read_ID False openelec_world idle_driver)"
  by (simp add: probe_simps openelec_world_def)

lemma probe_acme: "\<not> isl (smartups_read_ID False acme_world idle_driver)"
  by (simp add: probe_simps acme_world_def)

text \<open>The vendor \<open>Openelec\<close> is renamed; the vendor \<open>Acme\<close>, padded with nulls, is not.\<close>

theorem vendor_normalization_witness:
  "info (snd (projr (smartups_read_ID False openelec_world idle_driver))) ''ups.mfr''
     = Some ''OpenElectrons.com'' \<and>
   info (snd (projr (smartups_read_ID False acme_world idle_driver))) ''ups.mfr'' = Some ''Acme''"
proof
  have "sys_ioctl openelec_world = (0, tl openelec_world)"
    and "sys_write (tl openelec_world) = (1, tl (tl openelec_world))"
    and "sys_read 8 (tl (tl openelec_world))
           = (8, [79, 112, 101, 110, 101, 108, 101, 99], tl (tl (tl openelec_world)))"
    by (simp_all add: openelec_world_def sys_ioctl_def sys_write_def sys_read_def)
  from vendor_normalization [OF this(1) _ this(2) _ this(3) _ Inr_projr [OF probe_openelec]]
  show "info (snd (projr (smartups_read_ID False openelec_world idle_driver))) ''ups.mfr''
          = Some ''OpenElectrons.com''"
    by simp
next
  have "sys_ioctl acme_world = (0, tl acme_world)"
    and "sys_write (tl acme_world) = (1, tl (tl acme_world))"
    and "sys_read 8 (tl (tl acme_world)) = (8, [65, 99, 109, 101, 0, 0, 0, 0], tl (tl (tl acme_world)))"
    by (simp_all add: acme_world_def sys_ioctl_def sys_write_def sys_read_def)
  from vendor_normalization [OF this(1) _ this(2) _ this(3) _ Inr_projr [OF probe_acme]]
  show "info (snd (projr (smartups_read_ID False acme_world idle_driver))) ''ups.mfr'' = Some ''Acme''"
    by (simp add: char_of_def bit_0 bit_Suc)
qed


text \<open>
  Claim C10.  A poll finds the device not initialised and probes it.  The address is
  accepted and the vendor string is read, but the read of the model fails, or the model
  is read and the read of the firmware fails.  Then the probe returns with the
  manufacturer published and \<^verbatim>\<open>device_initialized\<close> still 0; and when the poll itself
  returns, the manufacturer is still published, \<^verbatim>\<open>device_initialized\<close> is still 0, and
  the next poll, in whatever environment, starts with the whole probe again.
\<close>

theorem partial_probe_is_repeated:
  assumes "device_initialized s = 0"
    and "select_slave w = Inr w0"
    and "i2c_read_cstring VENDOR_ID_OFFSET 8 w0 = (r1, vendor, w1, l1)" and "\<not> r1 < 0"
    and "i2c_read_cstring DEVICE_ID_OFFSET 8 w1 = (r2, model, w2, l2)"
    and "i2c_read_cstring FIRMWARE_OFFSET 8 w2 = (r3, firmware, w3, l3)"
    and "r2 < 0 \<or> r3 < 0"
    and "mfr = (if cstring vendor = ''Openelec'' then ''OpenElectrons.com'' else cstring vendor)"
  shows "\<exists>wp sp. smartups_read_ID False w s = Inr (wp, sp) \<and>
           info sp ''ups.mfr'' = Some mfr \<and> device_initialized sp = 0 \<and>
           (upsdrv_updateinfo stack w s = Inr (w', s') \<longrightarrow>
              info s' ''ups.mfr'' = Some mfr \<and> device_initialized s' = 0 \<and>
              lazy_probe wn s' = smartups_read_ID False wn s')"
proof -
  let ?s1 = "dstate_setinfo ''ups.mfr'' mfr (logged l1 s)"
  let ?s2 = "dstate_setinfo ''ups.model'' (cstring model) (logged l2 ?s1)"
  have "smartups_read_ID False w s = (if r2 < 0 then Inr (w2, logged l2 ?s1) else Inr (w3, logged l3 ?s2))"
    using assms(2-8) by (auto simp: smartups_read_ID_def Let_def)
  then obtain wp sp where p: "smartups_read_ID False w s = Inr (wp, sp)"
    and sp: "sp = logged l2 ?s1 \<or> sp = logged l3 ?s2"
    by (cases "r2 < 0") simp_all
  have mfr: "info sp ''ups.mfr'' = Some mfr"
    using sp by auto
  have ini: "device_initialized sp = 0"
    using sp assms(1) by auto
  have lp: "lazy_probe w s = Inr (wp, sp)"
    using p assms(1) by (simp add: lazy_probe_def)
  have "info s' ''ups.mfr'' = Some mfr \<and> device_initialized s' = 0 \<and>
          lazy_probe wn s' = smartups_read_ID False wn s'"
    if r: "upsdrv_updateinfo stack w s = Inr (w', s')"
    using r
  proof (cases rule: upsdrv_updateinfo_Inr)
    case (stale wa sa)
    then have "read_block stack wp sp = (w', s', None)"
      using lp by simp
    from read_block_None [OF this] show ?thesis
      using mfr by (simp add: lazy_probe_def)
  next
    case (ok wa sa buf)
    then have "decode_publish buf sp = Inr s'"
      using lp by simp
    from decode_publish_fields(1,3) [OF this] show ?thesis
      using mfr ini by (simp add: lazy_probe_def)
  qed
  with p mfr ini show ?thesis
    by blast
qed

text \<open>
  The vendor is read, the read of the model fails, and the poll goes on to read the
  sample block: \<open>OpenElectrons.com\<close> is published and the device is not initialised.
\<close>

theorem partial_probe_is_repeated_witness:
  "info (snd (projr (smartups_read_ID False partial_world lost_driver))) ''ups.mfr''
     = Some ''OpenElectrons.com'' \<and>
   device_initialized (snd (projr (smartups_read_ID False partial_world lost_driver))) = 0 \<and>
   info (snd (projr (upsdrv_updateinfo zero_stack partial_world lost_driver))) ''ups.mfr''
     = Some ''OpenElectrons.com'' \<and>
   device_initialized (snd (projr (upsdrv_updateinfo zero_stack partial_world lost_driver))) = 0"
proof -
  let ?tail = "[Resp 1 [], Resp 25 sample_block]"
  let ?buf = "store sample_block READ_OFFSET (zero_stack(0 := word_of_nat READ_OFFSET))"
  let ?p = "smartups_read_ID False partial_world lost_driver"
  let ?r = "upsdrv_updateinfo zero_stack partial_world lost_driver"
  have d0: "device_initialized lost_driver = 0"
    by (simp add: lost_driver_def idle_driver_def)
  have sel: "select_slave partial_world = Inr (tl partial_world)"
    by (simp add: select_slave_def sys_ioctl_def partial_world_def)
  have v: "i2c_read_cstring VENDOR_ID_OFFSET 8 (tl partial_world)
             = (0, [79, 112, 101, 110, 101, 108, 101, 99, 0], Resp 1 [] # Resp (- 1) [] # ?tail, [])"
    by (simp add: i2c_read_cstring_def sys_write_def sys_read_def partial_world_def)
  have m: "i2c_read_cstring DEVICE_ID_OFFSET 8 (Resp 1 [] # Resp (- 1) [] # ?tail)
             = (- 1, [], ?tail, [''i2c_read_cstring: could not read from offset 0x10''])"
    by (simp add: i2c_read_cstring_def sys_write_def sys_read_def fmt_02x_def to_unsigned_def
        zero_pad_def hex.simps digit_def)
  obtain r3 fw w3 l3 where f: "i2c_read_cstring FIRMWARE_OFFSET 8 ?tail = (r3, fw, w3, l3)"
    by (cases "i2c_read_cstring FIRMWARE_OFFSET 8 ?tail") auto
  have c: "cstring [79, 112, 101, 110, 101, 108, 101, 99, 0] = ''Openelec''"
    by (simp add: cstring_def char_of_def bit_0 bit_Suc)
  note t = partial_probe_is_repeated [OF d0 sel v _ m f _ refl, of zero_stack
      "fst (projr ?r)" "snd (projr ?r)" "[]"]
  from t obtain wp sp where p: "?p = Inr (wp, sp)"
    by auto
  have "fst (projr ?p) = ?tail"
    by (simp add: probe_simps partial_world_def)
  then have lp: "lazy_probe partial_world lost_driver = Inr (?tail, sp)"
    using p by (simp add: lazy_probe_def d0)
  have rb: "read_block zero_stack ?tail sp = ([], sp, Some ?buf)"
    by (simp add: read_block_def sys_write_def sys_read_def Let_def sample_block_def)
  have mc: "rd16 ?buf BATTERY_MAX_CAPACITY \<noteq> 0"
    by (simp add: rd16_def store_def sample_block_def)
  have "\<not> isl ?r"
    by (rule upsdrv_updateinfo_returns [OF lp rb mc])
  then have "?r = Inr (fst (projr ?r), snd (projr ?r))"
    by (rule Inr_projr)
  with t p show ?thesis
    by (auto simp: c)
qed


end
